theory Spec2Isabelle
  imports Main "HOL-Library.Word"
begin

unbundle bit_operations_syntax

section \<open>Decoder for MATLAB Level-5 files: a shallow embedding\<close>

text \<open>
  The definitions follow the Go package \<^verbatim>\<open>matlab\<close> function by function and keep its
  names. Go values of type \<^verbatim>\<open>error\<close> are represented by their message (the code itself
  tells errors apart with \<^verbatim>\<open>err.Error() == "EOF"\<close>); a \<^verbatim>\<open>panic\<close> is a separate
  kind of failure. Go's \<^verbatim>\<open>int\<close> is taken to be 64 bits wide, so that the conversion of a
  \<^verbatim>\<open>uint32\<close> length never goes negative and the padding arithmetic never overflows;
  such values are natural numbers here.
\<close>

subsection \<open>Failures\<close>

datatype fault = Err string | Panic string

definition EOF :: string where
  "EOF = ''EOF''"

subsection \<open>Printing of numbers in messages\<close>

definition digit :: "nat \<Rightarrow> char" where
  "digit d = char_of (48 + d)"

fun show_nat :: "nat \<Rightarrow> string" where
  "show_nat n = (if n < 10 then [digit n] else show_nat (n div 10) @ [digit (n mod 10)])"

declare show_nat.simps [simp del]

subsection \<open>Bytes and the byte source\<close>

type_synonym byte = "8 word"

text \<open>
  An \<^verbatim>\<open>io.Reader\<close> is modelled as the bytes it still holds and the error it reports once
  they are used up: \<^verbatim>\<open>EOF\<close> for the in-memory buffers the package builds with
  \<^verbatim>\<open>bytes.NewBuffer\<close> and for a file, possibly another error for an inflating reader
  whose input is damaged. A \<^verbatim>\<open>Read\<close> into a slice of \<open>p\<close> bytes delivers as many bytes as
  are there, up to \<open>p\<close>.

  Readers differ in when they report that error. \<^verbatim>\<open>bytes.Buffer.Read\<close> and a file return
  the last bytes without error and the error on the next call. The inflating reader of
  \<^verbatim>\<open>compress/zlib\<close> returns the last bytes together with the error (\<^verbatim>\<open>n > 0\<close> and
  \<^verbatim>\<open>io.EOF\<close> from one call). The field \<open>eager\<close> tells the two apart. A source that
  hands out fewer bytes than it holds while more are to come (an inflating reader at a
  window boundary of a stream longer than its window) is not covered by this model.
\<close>

record reader =
  pending :: "byte list"
  terminal :: string
  eager :: bool

definition NewBuffer :: "byte list \<Rightarrow> reader" where
  "NewBuffer bs = \<lparr>pending = bs, terminal = EOF, eager = False\<rparr>"

text \<open>The reader \<^verbatim>\<open>zlib.NewReader\<close> returns, over the inflated bytes and its last error.\<close>

definition zlibReader :: "byte list \<Rightarrow> string \<Rightarrow> reader" where
  "zlibReader bs t = \<lparr>pending = bs, terminal = t, eager = True\<rparr>"

text \<open>The result is the filled slice, the count \<open>n\<close> and the error, with the new reader.\<close>

definition Read :: "nat \<Rightarrow> reader \<Rightarrow> (byte list \<times> nat \<times> string option) \<times> reader" where
  "Read p rdr =
     (if pending rdr = [] then
        (if p = 0 then ((replicate p 0, 0, None), rdr)
         else ((replicate p 0, 0, Some (terminal rdr)), rdr))
      else
        (let n = min p (length (pending rdr)); rest = drop n (pending rdr)
         in ((take n (pending rdr) @ replicate (p - n) 0, n,
              if eager rdr \<and> rest = [] then Some (terminal rdr) else None),
             rdr\<lparr>pending := rest\<rparr>)))"

lemma Read_progress:
  "Read (Suc q) rdr = ((r, n, None), rdr') \<Longrightarrow> 0 < n"
  by (auto simp: Read_def Let_def split: if_splits)

text \<open>
  \<^verbatim>\<open>readAllBytes\<close>: the loop runs while \<open>remaining > 0\<close>, and every pass asks for \<open>p\<close>
  bytes. For \<open>p = 0\<close> the body never runs and the result is the nil slice with no error.
  The loop function takes \<open>q = p - 1\<close>, which is what makes every pass consume a byte.
\<close>

function readAllBytes_loop ::
  "nat \<Rightarrow> nat \<Rightarrow> byte list \<Rightarrow> reader \<Rightarrow> (byte list \<times> string option) \<times> reader" where
  "readAllBytes_loop q remaining buf rdr =
     (if remaining = 0 then ((buf, None), rdr)
      else
        (case Read (Suc q) rdr of
           ((r, n, Some e), rdr') \<Rightarrow>
             (if e = EOF then
                (if remaining = n then ((buf @ take n r, None), rdr')
                 else if Suc q = remaining then ((r, Some e), rdr')
                 else ((r, Some (''EOF reached but we're supposed to read ''
                                  @ show_nat remaining @ '' more bytes'')), rdr'))
              else ((buf, Some e), rdr'))
         | ((r, n, None), rdr') \<Rightarrow>
             readAllBytes_loop q (remaining - n) (buf @ take n r) rdr'))"
  by pat_completeness auto
termination
  by (relation "measure (\<lambda>(q, remaining, buf, rdr). remaining)")
     (auto dest: Read_progress [OF sym])

declare readAllBytes_loop.simps [simp del]

definition readAllBytes :: "nat \<Rightarrow> reader \<Rightarrow> (byte list \<times> string option) \<times> reader" where
  "readAllBytes p rdr =
     (case p of 0 \<Rightarrow> (([], None), rdr) | Suc q \<Rightarrow> readAllBytes_loop q (Suc q) [] rdr)"

text \<open>What \<^verbatim>\<open>readAllBytes\<close> returns on this byte source, by the number of bytes left.\<close>

lemma readAllBytes_loop_empty:
  "pending r = [] \<Longrightarrow> 0 < remaining \<Longrightarrow>
   readAllBytes_loop q remaining buf r =
     (if terminal r = EOF then
        (if Suc q = remaining then ((replicate (Suc q) 0, Some EOF), r)
         else ((replicate (Suc q) 0,
                Some (''EOF reached but we're supposed to read ''
                      @ show_nat remaining @ '' more bytes'')), r))
      else ((buf, Some (terminal r)), r))"
  by (subst readAllBytes_loop.simps) (auto simp add: Read_def)

lemma readAllBytes_enough:
  "p \<le> length (pending r) \<Longrightarrow>
   (eager r \<longrightarrow> p < length (pending r) \<or> terminal r = EOF) \<Longrightarrow>
   readAllBytes p r = ((take p (pending r), None), r\<lparr>pending := drop p (pending r)\<rparr>)"
  by (cases p)
     (auto simp: readAllBytes_def readAllBytes_loop.simps[of _ "Suc _"]
        readAllBytes_loop.simps[of _ 0] Read_def Let_def min_def)

lemma readAllBytes_empty:
  "0 < p \<Longrightarrow> pending r = [] \<Longrightarrow>
   readAllBytes p r =
     (if terminal r = EOF then ((replicate p 0, Some EOF), r) else (([], Some (terminal r)), r))"
  by (cases p) (simp_all add: readAllBytes_def readAllBytes_loop_empty)

text \<open>The last bytes of an eager reader whose error is not \<^verbatim>\<open>EOF\<close> are lost with the error.\<close>

lemma readAllBytes_last_error:
  assumes ne: "pending r \<noteq> []" and eag: "eager r" and t: "terminal r \<noteq> EOF"
  shows "readAllBytes (length (pending r)) r = (([], Some (terminal r)), r\<lparr>pending := []\<rparr>)"
proof -
  obtain q where q: "length (pending r) = Suc q" using ne by (cases "pending r") auto
  show ?thesis
    unfolding q using q eag t
    by (simp add: readAllBytes_def readAllBytes_loop.simps[of q "Suc q" "[]" r] Read_def
        Let_def)
qed

lemma readAllBytes_short:
  assumes ne: "pending r \<noteq> []" and lt: "length (pending r) < p" and lazy: "\<not> eager r"
  shows "readAllBytes p r =
     (if terminal r = EOF then
        ((replicate p 0,
          Some (''EOF reached but we're supposed to read ''
                @ show_nat (p - length (pending r)) @ '' more bytes'')),
         r\<lparr>pending := []\<rparr>)
      else ((pending r, Some (terminal r)), r\<lparr>pending := []\<rparr>))"
proof -
  obtain q where Suc: "p = Suc q" using lt by (cases p) auto
  have step: "readAllBytes p r =
      readAllBytes_loop q (p - length (pending r)) (pending r) (r\<lparr>pending := []\<rparr>)"
    using ne lt Suc lazy
    by (simp add: readAllBytes_def readAllBytes_loop.simps[of q "Suc q" "[]" r] Read_def
        Let_def min_def)
  have "0 < length (pending r)" using ne by simp
  then have neq: "Suc q \<noteq> p - length (pending r)" using Suc lt by arith
  show ?thesis
    unfolding step using lt neq Suc
    by (simp add: readAllBytes_loop_empty)
qed

text \<open>
  An eager reader that holds fewer bytes than asked for: the one \<^verbatim>\<open>Read\<close> returns them
  with the error, and for \<^verbatim>\<open>EOF\<close> the test \<^verbatim>\<open>p == remaining\<close> holds, so the caller
  sees a plain \<^verbatim>\<open>EOF\<close> as if nothing had been read.
\<close>

lemma readAllBytes_short_eager:
  assumes ne: "pending r \<noteq> []" and lt: "length (pending r) < p" and eag: "eager r"
  shows "readAllBytes p r =
     (if terminal r = EOF then
        ((pending r @ replicate (p - length (pending r)) 0, Some EOF), r\<lparr>pending := []\<rparr>)
      else (([], Some (terminal r)), r\<lparr>pending := []\<rparr>))"
proof -
  obtain q where Suc: "p = Suc q" using lt by (cases p) auto
  show ?thesis
    using ne lt Suc eag
    by (auto simp: readAllBytes_def readAllBytes_loop.simps[of q "Suc q" "[]" r] Read_def
        Let_def min_def)
qed

text \<open>
  So a call without error returns exactly the bytes asked for; the decoders index into
  the buffer on that ground.
\<close>

lemma readAllBytes_None_length:
  assumes "readAllBytes p r = ((buf, None), r')"
  shows "length buf = p"
proof -
  have "p < length (pending r) \<or> p = length (pending r) \<or> length (pending r) < p"
    by arith
  then consider (more) "p < length (pending r)" | (exact) "p = length (pending r)"
    | (less) "length (pending r) < p"
    by blast
  then show ?thesis
  proof cases
    case more
    then show ?thesis using assms by (auto simp: readAllBytes_enough)
  next
    case exact
    show ?thesis
    proof (cases "pending r \<noteq> [] \<and> eager r \<and> terminal r \<noteq> EOF")
      case True
      then show ?thesis using assms readAllBytes_last_error[of r] unfolding exact by simp
    next
      case False
      show ?thesis
      proof (cases "p = 0")
        case True
        then show ?thesis using assms by (simp add: readAllBytes_def)
      next
        case nz: False
        then have "pending r \<noteq> []" using exact by auto
        then have c: "eager r \<longrightarrow> p < length (pending r) \<or> terminal r = EOF"
          using False by auto
        have "p \<le> length (pending r)" using exact by simp
        from readAllBytes_enough[OF this c] assms show ?thesis using exact by auto
      qed
    qed
  next
    case less
    show ?thesis
    proof (cases "pending r = []")
      case True
      then show ?thesis using assms less by (auto simp: readAllBytes_empty split: if_splits)
    next
      case False
      then show ?thesis using assms less
        by (cases "eager r")
           (auto simp: readAllBytes_short readAllBytes_short_eager split: if_splits)
    qed
  qed
qed

subsection \<open>Byte order\<close>

datatype ByteOrder = LittleEndian | BigEndian

text \<open>
  A value of the interface type \<^verbatim>\<open>binary.ByteOrder\<close> may be nil (the header of a file
  whose marker was refused keeps the zero value), so the decoders take a
  \<open>ByteOrder option\<close>. Calling a method on the nil interface panics, as does reading
  a slice that is too short.
\<close>

definition Uint16 :: "ByteOrder option \<Rightarrow> byte list \<Rightarrow> fault + 16 word" where
  "Uint16 bo b =
     (case bo of
        None \<Rightarrow> Inl (Panic ''runtime error: invalid memory address or nil pointer dereference'')
      | Some LittleEndian \<Rightarrow>
          (if length b < 2 then Inl (Panic ''runtime error: index out of range'')
           else Inr (ucast (b ! 0) OR push_bit 8 (ucast (b ! 1))))
      | Some BigEndian \<Rightarrow>
          (if length b < 2 then Inl (Panic ''runtime error: index out of range'')
           else Inr (ucast (b ! 1) OR push_bit 8 (ucast (b ! 0)))))"

definition Uint32 :: "ByteOrder option \<Rightarrow> byte list \<Rightarrow> fault + 32 word" where
  "Uint32 bo b =
     (case bo of
        None \<Rightarrow> Inl (Panic ''runtime error: invalid memory address or nil pointer dereference'')
      | Some LittleEndian \<Rightarrow>
          (if length b < 4 then Inl (Panic ''runtime error: index out of range'')
           else Inr (ucast (b ! 0) OR push_bit 8 (ucast (b ! 1))
                     OR push_bit 16 (ucast (b ! 2)) OR push_bit 24 (ucast (b ! 3))))
      | Some BigEndian \<Rightarrow>
          (if length b < 4 then Inl (Panic ''runtime error: index out of range'')
           else Inr (ucast (b ! 3) OR push_bit 8 (ucast (b ! 2))
                     OR push_bit 16 (ucast (b ! 1)) OR push_bit 24 (ucast (b ! 0)))))"

definition Uint64 :: "ByteOrder option \<Rightarrow> byte list \<Rightarrow> fault + 64 word" where
  "Uint64 bo b =
     (case bo of
        None \<Rightarrow> Inl (Panic ''runtime error: invalid memory address or nil pointer dereference'')
      | Some LittleEndian \<Rightarrow>
          (if length b < 8 then Inl (Panic ''runtime error: index out of range'')
           else Inr (ucast (b ! 0) OR push_bit 8 (ucast (b ! 1))
                     OR push_bit 16 (ucast (b ! 2)) OR push_bit 24 (ucast (b ! 3))
                     OR push_bit 32 (ucast (b ! 4)) OR push_bit 40 (ucast (b ! 5))
                     OR push_bit 48 (ucast (b ! 6)) OR push_bit 56 (ucast (b ! 7))))
      | Some BigEndian \<Rightarrow>
          (if length b < 8 then Inl (Panic ''runtime error: index out of range'')
           else Inr (ucast (b ! 7) OR push_bit 8 (ucast (b ! 6))
                     OR push_bit 16 (ucast (b ! 5)) OR push_bit 24 (ucast (b ! 4))
                     OR push_bit 32 (ucast (b ! 3)) OR push_bit 40 (ucast (b ! 2))
                     OR push_bit 48 (ucast (b ! 1)) OR push_bit 56 (ucast (b ! 0)))))"

subsection \<open>The type table\<close>

type_synonym DataType = "32 word"

definition DataTypeUnknown :: DataType where "DataTypeUnknown = 0"
definition DTmiINT8 :: DataType where "DTmiINT8 = 1"
definition DTmiUINT8 :: DataType where "DTmiUINT8 = 2"
definition DTmiINT16 :: DataType where "DTmiINT16 = 3"
definition DTmiUINT16 :: DataType where "DTmiUINT16 = 4"
definition DTmiINT32 :: DataType where "DTmiINT32 = 5"
definition DTmiUINT32 :: DataType where "DTmiUINT32 = 6"
definition DTmiSINGLE :: DataType where "DTmiSINGLE = 7"
definition DTmiDOUBLE :: DataType where "DTmiDOUBLE = 9"
definition DTmiINT64 :: DataType where "DTmiINT64 = 12"
definition DTmiUINT64 :: DataType where "DTmiUINT64 = 13"
definition DTmiMATRIX :: DataType where "DTmiMATRIX = 14"
definition DTmiCOMPRESSED :: DataType where "DTmiCOMPRESSED = 15"
definition DTmiUTF8 :: DataType where "DTmiUTF8 = 16"
definition DTmiUTF16 :: DataType where "DTmiUTF16 = 17"
definition DTmiUTF32 :: DataType where "DTmiUTF32 = 18"

lemmas DataType_defs =
  DataTypeUnknown_def DTmiINT8_def DTmiUINT8_def DTmiINT16_def DTmiUINT16_def
  DTmiINT32_def DTmiUINT32_def DTmiSINGLE_def DTmiDOUBLE_def DTmiINT64_def
  DTmiUINT64_def DTmiMATRIX_def DTmiCOMPRESSED_def DTmiUTF8_def DTmiUTF16_def
  DTmiUTF32_def

definition DataType_String :: "DataType \<Rightarrow> string" where
  "DataType_String d =
     (if d = DTmiINT8 then ''miINT8''
      else if d = DTmiUINT8 then ''miUINT8''
      else if d = DTmiINT16 then ''miINT16''
      else if d = DTmiUINT16 then ''miUINT16''
      else if d = DTmiINT32 then ''miINT32''
      else if d = DTmiUINT32 then ''miUINT32''
      else if d = DTmiSINGLE then ''miSINGLE''
      else if d = DTmiDOUBLE then ''miDOUBLE''
      else if d = DTmiINT64 then ''miINT64''
      else if d = DTmiUINT64 then ''miUINT64''
      else if d = DTmiMATRIX then ''miMATRIX''
      else if d = DTmiCOMPRESSED then ''miCOMPRESSED''
      else if d = DTmiUTF8 then ''miUTF8''
      else if d = DTmiUTF16 then ''miUTF16''
      else if d = DTmiUTF32 then ''miUTF32''
      else ''unknown'')"

text \<open>
  \<^verbatim>\<open>NumBytes\<close>: the cases for the matrix type, the compressed type and every other code
  fall out of the switch to the panic.
\<close>

definition NumBytes :: "DataType \<Rightarrow> fault + nat" where
  "NumBytes d =
     (if d = DTmiINT8 then Inr 1
      else if d = DTmiUINT8 then Inr 1
      else if d = DTmiUTF8 then Inr 1
      else if d = DTmiINT16 then Inr 2
      else if d = DTmiUINT16 then Inr 2
      else if d = DTmiUTF16 then Inr 2
      else if d = DTmiINT32 then Inr 4
      else if d = DTmiUINT32 then Inr 4
      else if d = DTmiUTF32 then Inr 4
      else if d = DTmiSINGLE then Inr 4
      else if d = DTmiDOUBLE then Inr 8
      else if d = DTmiINT64 then Inr 8
      else if d = DTmiUINT64 then Inr 8
      else Inl (Panic (''Cannot get NumBytes of variable length type: '' @ DataType_String d)))"

subsection \<open>Decoded values, matrices, elements\<close>

type_synonym mxClass = "8 word"

definition mxUNKNOWN :: mxClass where "mxUNKNOWN = 0"
definition mxCELL :: mxClass where "mxCELL = 1"
definition mxSTRUCT :: mxClass where "mxSTRUCT = 2"
definition mxOBJECT :: mxClass where "mxOBJECT = 3"
definition mxCHAR :: mxClass where "mxCHAR = 4"
definition mxSPARSE :: mxClass where "mxSPARSE = 5"
definition mxDOUBLE :: mxClass where "mxDOUBLE = 6"
definition mxSINGLE :: mxClass where "mxSINGLE = 7"
definition mxINT8 :: mxClass where "mxINT8 = 8"
definition mxUINT8 :: mxClass where "mxUINT8 = 9"
definition mxINT16 :: mxClass where "mxINT16 = 10"
definition mxUINT16 :: mxClass where "mxUINT16 = 11"
definition mxINT32 :: mxClass where "mxINT32 = 12"
definition mxUINT32 :: mxClass where "mxUINT32 = 13"
definition mxINT64 :: mxClass where "mxINT64 = 14"
definition mxUINT64 :: mxClass where "mxUINT64 = 15"

lemmas mxClass_defs =
  mxUNKNOWN_def mxCELL_def mxSTRUCT_def mxOBJECT_def mxCHAR_def mxSPARSE_def mxDOUBLE_def
  mxSINGLE_def mxINT8_def mxUINT8_def mxINT16_def mxUINT16_def mxINT32_def mxUINT32_def
  mxINT64_def mxUINT64_def

record Flags =
  isLogical :: bool
  isComplex :: bool
  isGlobal :: bool

text \<open>
  The dynamically typed values (\<^verbatim>\<open>interface{}\<close>) the decoder produces. A float is kept
  as its bit pattern, which is all \<^verbatim>\<open>math.Float32frombits\<close> and
  \<^verbatim>\<open>math.Float64frombits\<close> reinterpret; a \<^verbatim>\<open>rune\<close> is an \<^verbatim>\<open>int32\<close>. The value of a
  cell matrix holds matrices.
\<close>

datatype iface =
    VInt8 "8 word" | VUInt8 "8 word"
  | VInt16 "16 word" | VUInt16 "16 word"
  | VInt32 "32 word" | VUInt32 "32 word"
  | VFloat32 "32 word" | VFloat64 "64 word"
  | VInt64 "64 word" | VUInt64 "64 word"
  | VMatrix Matrix
and Matrix =
    Matrix (Name: string) (Dimension: "32 word list") (mflags: Flags) (Class: mxClass)
           (mvalue: "iface list")

datatype smallDataElement = SmallData (sde_typ: DataType) (sde_value: "iface list")

datatype Element =
    Small smallDataElement
  | Sub DataType iface
  | Mat Matrix

fun Element_Type :: "Element \<Rightarrow> DataType" where
  "Element_Type (Small e) = sde_typ e"
| "Element_Type (Sub t v) = t"
| "Element_Type (Mat m) = DTmiMATRIX"

subsection \<open>The payload decoder\<close>

definition RuneError :: "32 word" where
  "RuneError = 0xFFFD"

text \<open>
  The first rune of a byte slice, as \<^verbatim>\<open>utf8.DecodeRune\<close> of the Go library computes it
  (the width it also returns is dropped by the caller): the table of leading bytes gives
  the length of the sequence and the range the second byte must lie in.
\<close>

definition DecodeRune :: "byte list \<Rightarrow> 32 word" where
  "DecodeRune p =
     (if length p < 1 then RuneError
      else
        (let p0 = p ! 0 in
         if p0 < 0x80 then ucast p0
         else if p0 < 0xC2 \<or> 0xF4 < p0 then RuneError
         else
           (let sz = (if p0 < 0xE0 then 2 else if p0 < 0xF0 then 3 else (4::nat));
                lo = (if p0 = 0xE0 then 0xA0 else if p0 = 0xF0 then 0x90 else (0x80::byte));
                hi = (if p0 = 0xED then 0x9F else if p0 = 0xF4 then 0x8F else (0xBF::byte))
            in
            if length p < sz then RuneError
            else
              (let b1 = p ! 1 in
               if b1 < lo \<or> hi < b1 then RuneError
               else if sz \<le> 2 then
                 push_bit 6 (ucast (p0 AND 0x1F)) OR ucast (b1 AND 0x3F)
               else
                 (let b2 = p ! 2 in
                  if b2 < 0x80 \<or> 0xBF < b2 then RuneError
                  else if sz \<le> 3 then
                    push_bit 12 (ucast (p0 AND 0x0F)) OR push_bit 6 (ucast (b1 AND 0x3F))
                    OR ucast (b2 AND 0x3F)
                  else
                    (let b3 = p ! 3 in
                     if b3 < 0x80 \<or> 0xBF < b3 then RuneError
                     else
                       push_bit 18 (ucast (p0 AND 0x07)) OR push_bit 12 (ucast (b1 AND 0x3F))
                       OR push_bit 6 (ucast (b2 AND 0x3F)) OR ucast (b3 AND 0x3F)))))))"

text \<open>
  \<^verbatim>\<open>utf16.Decode\<close> on a slice of one code unit: a lone surrogate becomes the
  replacement character.
\<close>

definition utf16_Decode1 :: "16 word \<Rightarrow> 32 word" where
  "utf16_Decode1 u = (if u < 0xD800 \<or> 0xE000 \<le> u then ucast u else RuneError)"

definition parseContent :: "DataType \<Rightarrow> ByteOrder option \<Rightarrow> byte list \<Rightarrow> fault + iface" where
  "parseContent t bo data =
     (if t = DTmiINT8 then
        (if data = [] then Inl (Panic ''runtime error: index out of range'')
         else Inr (VInt8 (data ! 0)))
      else if t = DTmiUINT8 then
        (if data = [] then Inl (Panic ''runtime error: index out of range'')
         else Inr (VUInt8 (data ! 0)))
      else if t = DTmiINT16 then map_sum id VInt16 (Uint16 bo data)
      else if t = DTmiUINT16 then map_sum id VUInt16 (Uint16 bo data)
      else if t = DTmiINT32 then map_sum id VInt32 (Uint32 bo data)
      else if t = DTmiUINT32 then map_sum id VUInt32 (Uint32 bo data)
      else if t = DTmiSINGLE then map_sum id VFloat32 (Uint32 bo data)
      else if t = DTmiDOUBLE then map_sum id VFloat64 (Uint64 bo data)
      else if t = DTmiINT64 then map_sum id VInt64 (Uint64 bo data)
      else if t = DTmiUINT64 then map_sum id VUInt64 (Uint64 bo data)
      else if t = DTmiMATRIX then Inl (Panic ''Should not be parsing matrix here'')
      else if t = DTmiUTF8 then Inr (VInt32 (DecodeRune data))
      else if t = DTmiUTF16 then map_sum id (\<lambda>u. VInt32 (utf16_Decode1 u)) (Uint16 bo data)
      else if t = DTmiUTF32 then Inl (Panic ''Not supported'')
      else if t = DTmiCOMPRESSED then
        Inl (Panic ''should not be parsing compressed data type here'')
      else Inl (Err (''cannot parseContent data type: '' @ DataType_String t
                     @ ''. Probably just need to implement this'')))"

text \<open>
  \<^verbatim>\<open>parseMulti\<close>: pass \<open>i\<close> of the loop cuts \<^verbatim>\<open>data[i*w:(i+1)*w]\<close> and decodes it. The
  slice expression panics when its upper bound passes the capacity of \<open>data\<close>; the
  slices handed in by the callers have no spare capacity (an 8-byte tag buffer cut at 4,
  and a buffer of exactly the bytes asked for), so the bound is the length.
  The first argument counts the passes still to run.
\<close>

fun parseMulti_loop ::
  "nat \<Rightarrow> DataType \<Rightarrow> ByteOrder option \<Rightarrow> byte list \<Rightarrow> nat \<Rightarrow> fault + iface list" where
  "parseMulti_loop 0 t bo data i = Inr []"
| "parseMulti_loop (Suc k) t bo data i =
     (case NumBytes t of
        Inl f \<Rightarrow> Inl f
      | Inr w \<Rightarrow>
          (if length data < (i + 1) * w then
             Inl (Panic ''runtime error: slice bounds out of range'')
           else
             (case parseContent t bo (take w (drop (i * w) data)) of
                Inl f \<Rightarrow> Inl f
              | Inr i2 \<Rightarrow>
                  (case parseMulti_loop k t bo data (i + 1) of
                     Inl f \<Rightarrow> Inl f
                   | Inr res \<Rightarrow> Inr (i2 # res)))))"

definition parseMulti ::
  "DataType \<Rightarrow> ByteOrder option \<Rightarrow> byte list \<Rightarrow> nat \<Rightarrow> fault + iface list" where
  "parseMulti t bo data len = parseMulti_loop len t bo data 0"

subsection \<open>The tag reader\<close>

text \<open>
  The result of \<^verbatim>\<open>readTag\<close> is the small element (a pointer, nil for a normal tag), the
  type and the length. The two 16-bit halves are always read little-endian.
\<close>

definition le16 :: "byte list \<Rightarrow> 16 word" where
  "le16 b = ucast (b ! 0) OR push_bit 8 (ucast (b ! 1))"

definition readTag ::
  "ByteOrder option \<Rightarrow> reader \<Rightarrow> (fault + (smallDataElement option \<times> DataType \<times> nat)) \<times> reader" where
  "readTag bo r =
     (case readAllBytes 8 r of
        ((buf, Some e), r') \<Rightarrow> (Inl (Err e), r')
      | ((buf, None), r') \<Rightarrow>
          (let h1 = le16 (take 2 (drop 2 buf)); h0 = le16 (take 2 buf);
               (sdeLen, sdeType) = (if bo = Some BigEndian then (h0, h1) else (h1, h0))
           in
           if sdeLen \<noteq> 0 then
             (let dt = (ucast sdeType :: DataType) in
              case NumBytes dt of
                Inl f \<Rightarrow> (Inl f, r')
              | Inr w \<Rightarrow>
                  (case parseMulti dt bo (drop 4 buf) (unat sdeLen div w) of
                     Inl f \<Rightarrow> (Inl f, r')
                   | Inr sdeContent \<Rightarrow>
                       (Inr (Some (SmallData dt sdeContent), DataTypeUnknown, 0), r')))
           else
             (case Uint32 bo (take 4 buf) of
                Inl f \<Rightarrow> (Inl f, r')
              | Inr dataType \<Rightarrow>
                  (case Uint32 bo (drop 4 buf) of
                     Inl f \<Rightarrow> (Inl f, r')
                   | Inr len \<Rightarrow> (Inr (None, dataType, unat len), r')))))"

definition padTo64Bit :: "nat \<Rightarrow> nat" where
  "padTo64Bit p = ((p div 8) + (if p mod 8 \<noteq> 0 then 1 else 0)) * 8"

subsection \<open>The sub-elements of a matrix\<close>

text \<open>
  \<^verbatim>\<open>arrayFlags\<close>: the two 16-bit words are taken from bytes 0-1 and bytes 4-5 of the
  payload (\<^verbatim>\<open>Uint16\<close> of \<^verbatim>\<open>buf[:4]\<close> and of \<^verbatim>\<open>buf[4:]\<close>), always little-endian, and
  change places for a big-endian file.
\<close>

definition arrayFlags ::
  "ByteOrder option \<Rightarrow> reader \<Rightarrow> (fault + (Flags \<times> mxClass)) \<times> reader" where
  "arrayFlags bo r =
     (case readTag bo r of
        (Inl f, r1) \<Rightarrow> (Inl f, r1)
      | (Inr (sde, dt, p), r1) \<Rightarrow>
          (if dt \<noteq> DTmiUINT32 then
             (Inl (Err (''invalid matrix, the array flags sub element in a matrix should have tag of type ''
                        @ DataType_String DTmiUINT32 @ [CHR 0x0A])), r1)
           else if p \<noteq> 8 then
             (Inl (Err (''invalid matrix, the size of array tag should be 8 bytes. Got ''
                        @ show_nat p @ '' bytes instead'')), r1)
           else
             (case readAllBytes 8 r1 of
                ((buf, Some e), r2) \<Rightarrow> (Inl (Err e), r2)
              | ((buf, None), r2) \<Rightarrow>
                  (let w0 = le16 (take 4 buf); w1 = le16 (drop 4 buf);
                       (flagsAndClass, nonZeroMax) =
                          (if bo = Some BigEndian then (w1, w0) else (w0, w1))
                   in (Inr (\<lparr>isLogical = (drop_bit 9 flagsAndClass = 1),
                              isComplex = (drop_bit 11 flagsAndClass = 1),
                              isGlobal = (drop_bit 10 flagsAndClass = 1)\<rparr>,
                            ucast (flagsAndClass AND 0xFF)), r2)))))"

text \<open>
  \<^verbatim>\<open>dimensionsArray\<close>: the loop reads four bytes at a time into the one slice \<open>sBuf\<close>
  from a buffer over the padded payload.
\<close>

fun dimensions_loop ::
  "nat \<Rightarrow> ByteOrder option \<Rightarrow> reader \<Rightarrow> byte list \<Rightarrow> fault + 32 word list" where
  "dimensions_loop 0 bo dimsr sBuf = Inr []"
| "dimensions_loop (Suc k) bo dimsr sBuf =
     (case Read 4 dimsr of
        ((b, n, Some e), dimsr') \<Rightarrow> Inl (Err e)
      | ((b, n, None), dimsr') \<Rightarrow>
          (let sBuf' = take n b @ drop n sBuf in
           case Uint32 bo sBuf' of
             Inl f \<Rightarrow> Inl f
           | Inr d \<Rightarrow>
               (case dimensions_loop k bo dimsr' sBuf' of
                  Inl f \<Rightarrow> Inl f
                | Inr dim \<Rightarrow> Inr (d # dim))))"

definition dimensionsArray ::
  "ByteOrder option \<Rightarrow> reader \<Rightarrow> (fault + 32 word list) \<times> reader" where
  "dimensionsArray bo r =
     (case readTag bo r of
        (Inl f, r1) \<Rightarrow> (Inl f, r1)
      | (Inr (sde, dt, p), r1) \<Rightarrow>
          (if dt \<noteq> DTmiINT32 then
             (Inl (Err (''invalid data type. Expects dimension sub element to have type int32, got ''
                        @ DataType_String dt @ '' instead'')), r1)
           else
             (case readAllBytes (padTo64Bit p) r1 of
                ((buf, Some e), r2) \<Rightarrow> (Inl (Err e), r2)
              | ((buf, None), r2) \<Rightarrow>
                  (dimensions_loop (p div 4) bo (NewBuffer buf) (replicate 4 0), r2))))"

definition string_of_bytes :: "byte list \<Rightarrow> string" where
  "string_of_bytes bs = map (\<lambda>b. char_of (unat b)) bs"

text \<open>The name bytes of a small element: every value must be an \<^verbatim>\<open>int8\<close>.\<close>

fun name_bytes :: "iface list \<Rightarrow> fault + byte list" where
  "name_bytes [] = Inr []"
| "name_bytes (VInt8 b # vs) =
     (case name_bytes vs of Inl f \<Rightarrow> Inl f | Inr n \<Rightarrow> Inr (b # n))"
| "name_bytes (v # vs) = Inl (Panic ''interface conversion: interface {} is not int8'')"

text \<open>
  \<^verbatim>\<open>arrayName\<close> returns its string together with the error, and the caller goes on with
  the string when the error is \<^verbatim>\<open>EOF\<close>; so the result here is the pair.
\<close>

definition arrayName ::
  "ByteOrder option \<Rightarrow> reader \<Rightarrow> (string \<times> fault option) \<times> reader" where
  "arrayName bo r =
     (case readTag bo r of
        (Inl f, r1) \<Rightarrow> (([], Some f), r1)
      | (Inr (Some sde, dt, p), r1) \<Rightarrow>
          (case name_bytes (sde_value sde) of
             Inl f \<Rightarrow> (([], Some f), r1)
           | Inr n \<Rightarrow> ((string_of_bytes n, None), r1))
      | (Inr (None, dt, p), r1) \<Rightarrow>
          (if dt \<noteq> DTmiINT8 then
             (([], Some (Err (''invalid data type. Expects array name sub element to have type int8, got ''
                              @ DataType_String dt @ '' instead''))), r1)
           else
             (case readAllBytes (padTo64Bit p) r1 of
                ((data, err), r2) \<Rightarrow>
                  (if length data < p then
                     (([], Some (Panic ''runtime error: slice bounds out of range'')), r2)
                   else ((string_of_bytes (take p data), map_option Err err), r2)))))"

text \<open>
  \<^verbatim>\<open>readNumericalData\<close> hands back the small element of the tag when the length is zero,
  which is the nil pointer after a normal tag; otherwise it reads exactly the declared
  bytes, without padding.
\<close>

definition readNumericalData ::
  "ByteOrder option \<Rightarrow> reader \<Rightarrow> (fault + smallDataElement option) \<times> reader" where
  "readNumericalData bo r =
     (case readTag bo r of
        (Inl f, r1) \<Rightarrow> (Inl f, r1)
      | (Inr (sde, dt, numBytes), r1) \<Rightarrow>
          (if numBytes = 0 then (Inr sde, r1)
           else
             (case readAllBytes numBytes r1 of
                ((data, Some e), r2) \<Rightarrow> (Inl (Err e), r2)
              | ((data, None), r2) \<Rightarrow>
                  (case NumBytes dt of
                     Inl f \<Rightarrow> (Inl f, r2)
                   | Inr w \<Rightarrow>
                       (case parseMulti dt bo data (numBytes div w) of
                          Inl f \<Rightarrow> (Inl f, r2)
                        | Inr multi \<Rightarrow> (Inr (Some (SmallData dt multi)), r2))))))"

subsection \<open>The element reader and the matrix decoder\<close>

text \<open>
  \<^verbatim>\<open>zlib.NewReader\<close> over a buffer of the compressed bytes is a parameter: it fails with
  an error, or gives the inflated bytes and the error that ends them (\<^verbatim>\<open>EOF\<close> for a
  sound stream), which the element reader then reads through \<open>zlibReader\<close>.
\<close>

type_synonym inflater = "byte list \<Rightarrow> string + (byte list \<times> string)"

text \<open>The children of a cell: \<^verbatim>\<open>e.(*Matrix)\<close> panics on anything but a matrix.\<close>

fun cell_values :: "Element list \<Rightarrow> fault + iface list" where
  "cell_values [] = Inr []"
| "cell_values (Mat m # es) =
     (case cell_values es of Inl f \<Rightarrow> Inl f | Inr res \<Rightarrow> Inr (VMatrix m # res))"
| "cell_values (e # es) =
     Inl (Panic ''interface conversion: matlab.Element is not *matlab.Matrix'')"

text \<open>
  The test \<^verbatim>\<open>err != nil && err.Error() != "EOF"\<close>, which the matrix decoder applies to
  the error of the name and of the imaginary part: what is left is the failure that ends
  the call.
\<close>

definition notEOF :: "fault option \<Rightarrow> fault option" where
  "notEOF err =
     (case err of
        Some (Err e) \<Rightarrow> (if e \<noteq> EOF then Some (Err e) else None)
      | Some f \<Rightarrow> Some f
      | None \<Rightarrow> None)"

text \<open>
  The default branch of the class switch in \<^verbatim>\<open>miMatrix\<close> (numeric and character
  arrays): the real part, then for a complex matrix the imaginary part, which is read and
  dropped, then the value of the real part.
\<close>

definition numericValue :: "ByteOrder option \<Rightarrow> Flags \<Rightarrow> reader \<Rightarrow> fault + iface list" where
  "numericValue bo flags r3 =
     (case readNumericalData bo r3 of
        (Inl f, r4) \<Rightarrow> Inl f
      | (Inr pr, r4) \<Rightarrow>
          (case (if isComplex flags then
                   notEOF (case readNumericalData bo r4 of
                             (Inl f, r5) \<Rightarrow> Some f
                           | (Inr im, r5) \<Rightarrow> None)
                 else None)
           of
             Some f \<Rightarrow> Inl f
           | None \<Rightarrow>
               (case pr of
                  None \<Rightarrow>
                    Inl (Panic ''runtime error: invalid memory address or nil pointer dereference'')
                | Some e \<Rightarrow> Inr (sde_value e))))"

text \<open>
  The three functions call each other, and the inflated contents of a compressed element
  are under no bound from the bytes read so far, so the recursion is counted: the first
  argument is the number of nested calls allowed, and the result is \<open>None\<close> when it is
  used up. \<^verbatim>\<open>readAllElements\<close> appends each element to its result and stops at the
  error \<^verbatim>\<open>EOF\<close>.
\<close>

fun readElement ::
    "nat \<Rightarrow> inflater \<Rightarrow> ByteOrder option \<Rightarrow> reader \<Rightarrow> ((fault + Element) \<times> reader) option"
  and readAllElements ::
    "nat \<Rightarrow> inflater \<Rightarrow> ByteOrder option \<Rightarrow> reader
       \<Rightarrow> ((fault + Element list) \<times> reader) option"
  and miMatrix ::
    "nat \<Rightarrow> inflater \<Rightarrow> ByteOrder option \<Rightarrow> byte list \<Rightarrow> (fault + Matrix) option"
where
  "readElement 0 zr bo r = None"
| "readElement (Suc n) zr bo r =
     (case readTag bo r of
        (Inl f, r1) \<Rightarrow> Some (Inl f, r1)
      | (Inr (Some sde, dt, p), r1) \<Rightarrow> Some (Inr (Small sde), r1)
      | (Inr (None, dt, p), r1) \<Rightarrow>
          (if dt = DTmiCOMPRESSED then
             (case readAllBytes p r1 of
                ((buf, Some e), r2) \<Rightarrow> Some (Inl (Err e), r2)
              | ((buf, None), r2) \<Rightarrow>
                  (case zr buf of
                     Inl e \<Rightarrow> Some (Inl (Err e), r2)
                   | Inr (out, t) \<Rightarrow>
                       (case readAllElements n zr bo (zlibReader out t) of
                          None \<Rightarrow> None
                        | Some (Inl f, cr') \<Rightarrow> Some (Inl f, r2)
                        | Some (Inr allElements, cr') \<Rightarrow>
                            (if length allElements \<noteq> 1 then
                               Some (Inl (Panic ''This library assumes compressed elements have exactly one sub element''), r2)
                             else Some (Inr (allElements ! 0), r2)))))
           else if dt = DTmiMATRIX then
             (case readAllBytes p r1 of
                ((data, Some e), r2) \<Rightarrow> Some (Inl (Err e), r2)
              | ((data, None), r2) \<Rightarrow>
                  (case miMatrix n zr bo data of
                     None \<Rightarrow> None
                   | Some (Inl f) \<Rightarrow> Some (Inl f, r2)
                   | Some (Inr m) \<Rightarrow> Some (Inr (Mat m), r2)))
           else
             (case readAllBytes (padTo64Bit p) r1 of
                ((buf, Some e), r2) \<Rightarrow> Some (Inl (Err e), r2)
              | ((buf, None), r2) \<Rightarrow>
                  (case parseContent dt bo buf of
                     Inl f \<Rightarrow> Some (Inl f, r2)
                   | Inr content \<Rightarrow> Some (Inr (Sub dt content), r2)))))"
| "readAllElements 0 zr bo r = None"
| "readAllElements (Suc n) zr bo r =
     (case readElement n zr bo r of
        None \<Rightarrow> None
      | Some (Inl (Err e), r1) \<Rightarrow>
          (if e = EOF then Some (Inr [], r1) else Some (Inl (Err e), r1))
      | Some (Inl f, r1) \<Rightarrow> Some (Inl f, r1)
      | Some (Inr el, r1) \<Rightarrow>
          (case readAllElements n zr bo r1 of
             None \<Rightarrow> None
           | Some (Inl f, r2) \<Rightarrow> Some (Inl f, r2)
           | Some (Inr res, r2) \<Rightarrow> Some (Inr (el # res), r2)))"
| "miMatrix 0 zr bo data = None"
| "miMatrix (Suc n) zr bo data =
     (case arrayFlags bo (NewBuffer data) of
        (Inl f, r1) \<Rightarrow> Some (Inl f)
      | (Inr (flags, class), r1) \<Rightarrow>
          (case dimensionsArray bo r1 of
             (Inl f, r2) \<Rightarrow> Some (Inl f)
           | (Inr dim, r2) \<Rightarrow>
               (case arrayName bo r2 of
                  ((name, err), r3) \<Rightarrow>
                    (case notEOF err of
                       Some f \<Rightarrow> Some (Inl f)
                     | None \<Rightarrow>
                         (case
                            (if class = mxSPARSE then
                               Some (Inl (Panic ''Sparse matrix unsupported''))
                             else if class = mxCELL then
                               (case readAllElements n zr bo r3 of
                                  None \<Rightarrow> None
                                | Some (Inl f, r4) \<Rightarrow> Some (Inl f)
                                | Some (Inr elements, r4) \<Rightarrow> Some (cell_values elements))
                             else if class = mxSTRUCT then
                               Some (Inl (Panic ''Struct matrix unsupported''))
                             else if class = mxOBJECT then
                               Some (Inl (Panic ''Object matrix unsupported''))
                             else Some (numericValue bo flags r3))
                          of
                            None \<Rightarrow> None
                          | Some (Inl f) \<Rightarrow> Some (Inl f)
                          | Some (Inr res) \<Rightarrow> Some (Inr (Matrix name dim flags class res)))))))"

subsection \<open>The file and its variables\<close>

text \<open>
  The header keeps the level, the platform and the byte order; the creation time, which
  no decoding step reads, is left out. The byte order is the nil interface until the
  marker is accepted. The writer of a file is never used.
\<close>

record Header =
  Level :: string
  Platform :: string
  Endianess :: "ByteOrder option"

record File =
  Header :: Header
  file_r :: reader
  hasReadAll :: bool
  vars :: "string \<rightharpoonup> Matrix"

text \<open>
  The operations of \<^verbatim>\<open>bufio.Reader\<close> on the 116 bytes of header text, which the first
  call buffers as a whole: the result and the bytes left.
\<close>

definition ReadBytes :: "byte \<Rightarrow> byte list \<Rightarrow> (byte list \<times> string option) \<times> byte list" where
  "ReadBytes delim buf =
     (if delim \<in> set buf then
        ((takeWhile (\<lambda>b. b \<noteq> delim) buf @ [delim], None),
         tl (dropWhile (\<lambda>b. b \<noteq> delim) buf))
      else ((buf, Some EOF), []))"

definition Discard :: "nat \<Rightarrow> byte list \<Rightarrow> string option \<times> byte list" where
  "Discard n buf = (if n \<le> length buf then (None, drop n buf) else (Some EOF, []))"

definition TrimRight :: "string \<Rightarrow> char \<Rightarrow> string" where
  "TrimRight s c = rev (dropWhile (\<lambda>x. x = c) (rev s))"

definition headerLen :: nat where "headerLen = 128"
definition headerTextLen :: nat where "headerTextLen = 116"
definition headerSubsystemOffsetLen :: nat where "headerSubsystemOffsetLen = 8"
definition headerFlagLen :: nat where "headerFlagLen = 4"

text \<open>
  The first part of \<^verbatim>\<open>readHeader\<close>, on the description text: the error, if any, and
  the header with the fields assigned so far. \<^verbatim>\<open>strings.TrimSpace\<close> is a parameter.
  The 24 bytes of the date are read (an empty rest is an error) and a date that does not
  parse is tolerated.
\<close>

definition headerText ::
  "(string \<Rightarrow> string) \<Rightarrow> byte list \<Rightarrow> Header \<Rightarrow> string option \<times> Header" where
  "headerText trimSpace buf h =
     (case ReadBytes 0x20 buf of
        ((prefix, Some e), b1) \<Rightarrow> (Some e, h)
      | ((prefix, None), b1) \<Rightarrow>
          (if string_of_bytes prefix \<noteq> ''MATLAB '' then (Some ''not a valid .mat file'', h)
           else
             (case ReadBytes 0x20 b1 of
                ((level, Some e), b2) \<Rightarrow> (Some e, h\<lparr>Level := string_of_bytes level\<rparr>)
              | ((level, None), b2) \<Rightarrow>
                  (let h1 = h\<lparr>Level := trimSpace (string_of_bytes level)\<rparr> in
                   if Level h1 \<noteq> ''5.0'' then (Some ''can only read matlab level 5 files'', h1)
                   else
                     (case Discard (length ''MAT-file Platform: '') b2 of
                        (Some e, b3) \<Rightarrow> (Some e, h1)
                      | (None, b3) \<Rightarrow>
                          (case ReadBytes 0x2C b3 of
                             ((platform, Some e), b4) \<Rightarrow>
                               (Some e, h1\<lparr>Platform := string_of_bytes platform\<rparr>)
                           | ((platform, None), b4) \<Rightarrow>
                               (let h2 = h1\<lparr>Platform :=
                                             TrimRight (string_of_bytes platform) CHR '',''\<rparr>
                                in
                                case Discard (length '' Created on: '') b4 of
                                  (Some e, b5) \<Rightarrow> (Some e, h2)
                                | (None, b5) \<Rightarrow>
                                    (if b5 = [] then (Some EOF, h2) else (None, h2)))))))))"

text \<open>
  \<^verbatim>\<open>readHeader\<close> stores a fresh header in the file at once, so a failed call leaves the
  header as far as it was filled in.
\<close>

definition readHeader :: "(string \<Rightarrow> string) \<Rightarrow> File \<Rightarrow> fault option \<times> File" where
  "readHeader trimSpace f =
     (let h = \<lparr>Level = [], Platform = [], Endianess = None\<rparr> in
      case readAllBytes headerTextLen (file_r f) of
        ((buf, Some e), r1) \<Rightarrow> (Some (Err e), f\<lparr>Header := h, file_r := r1\<rparr>)
      | ((buf, None), r1) \<Rightarrow>
          (case headerText trimSpace buf h of
             (Some e, h') \<Rightarrow> (Some (Err e), f\<lparr>Header := h', file_r := r1\<rparr>)
           | (None, h') \<Rightarrow>
               (case readAllBytes headerSubsystemOffsetLen r1 of
                  ((sub, Some e), r2) \<Rightarrow> (Some (Err e), f\<lparr>Header := h', file_r := r2\<rparr>)
                | ((sub, None), r2) \<Rightarrow>
                    (case readAllBytes headerFlagLen r2 of
                       ((buf, Some e), r3) \<Rightarrow>
                         (Some (Err e), f\<lparr>Header := h', file_r := r3\<rparr>)
                     | ((buf, None), r3) \<Rightarrow>
                         (let byteOrder = string_of_bytes (take 2 (drop 2 buf)) in
                          if byteOrder = ''MI'' then
                            (None, f\<lparr>Header := h'\<lparr>Endianess := Some BigEndian\<rparr>,
                                      file_r := r3\<rparr>)
                          else if byteOrder = ''IM'' then
                            (None, f\<lparr>Header := h'\<lparr>Endianess := Some LittleEndian\<rparr>,
                                      file_r := r3\<rparr>)
                          else
                            (Some (Err (''invalid byte order setting: '' @ byteOrder)),
                             f\<lparr>Header := h', file_r := r3\<rparr>))))))"

definition NewFileFromReader :: "(string \<Rightarrow> string) \<Rightarrow> reader \<Rightarrow> fault option \<times> File" where
  "NewFileFromReader trimSpace r =
     readHeader trimSpace
       \<lparr>Header = \<lparr>Level = [], Platform = [], Endianess = None\<rparr>,
        file_r = r, hasReadAll = False, vars = Map.empty\<rparr>"

text \<open>The loop of \<^verbatim>\<open>readAll\<close> over the elements: each must be a matrix, and is stored
  under its name.\<close>

fun register :: "Element list \<Rightarrow> File \<Rightarrow> fault option \<times> File" where
  "register [] f = (None, f)"
| "register (v # vs) f =
     (if Element_Type v \<noteq> DTmiMATRIX then
        (Some (Panic ''This library assumes top level elements are either Matrix or Compressed. Please file an issue''), f)
      else
        (case v of
           Mat m \<Rightarrow> register vs (f\<lparr>vars := (vars f)(Name m \<mapsto> m)\<rparr>)
         | _ \<Rightarrow> (Some (Panic ''interface conversion: matlab.Element is not *matlab.Matrix''), f)))"

text \<open>The file after the loop has stored a list of matrices, one after the other.\<close>

fun registerAll :: "Matrix list \<Rightarrow> File \<Rightarrow> File" where
  "registerAll [] f = f"
| "registerAll (m # ms) f = registerAll ms (f\<lparr>vars := (vars f)(Name m \<mapsto> m)\<rparr>)"

text \<open>\<^verbatim>\<open>readAll\<close> sets the flag before it reads.\<close>

definition readAll :: "nat \<Rightarrow> inflater \<Rightarrow> File \<Rightarrow> (fault option \<times> File) option" where
  "readAll n zr f =
     (if hasReadAll f = True then Some (None, f)
      else
        (let f1 = f\<lparr>hasReadAll := True\<rparr> in
         case readAllElements n zr (Endianess (Header f1)) (file_r f1) of
           None \<Rightarrow> None
         | Some (Inl e, r') \<Rightarrow> Some (Some e, f1\<lparr>file_r := r'\<rparr>)
         | Some (Inr elements, r') \<Rightarrow> Some (register elements (f1\<lparr>file_r := r'\<rparr>))))"

text \<open>
  \<^verbatim>\<open>GetVar\<close> returns the matrix and whether it was found; the pair is the optional
  matrix here. An error of the pass gives \<^verbatim>\<open>(nil, false)\<close>; a panic is not caught.
\<close>

definition GetVar ::
  "nat \<Rightarrow> inflater \<Rightarrow> string \<Rightarrow> File \<Rightarrow> ((fault + Matrix option) \<times> File) option" where
  "GetVar n zr name f =
     (if \<not> hasReadAll f then
        (case readAll n zr f of
           None \<Rightarrow> None
         | Some (Some (Err e), f') \<Rightarrow> Some (Inr None, f')
         | Some (Some flt, f') \<Rightarrow> Some (Inl flt, f')
         | Some (None, f') \<Rightarrow> Some (Inr (vars f' name), f'))
      else Some (Inr (vars f name), f))"

subsection \<open>Names for the parts of a tag\<close>

text \<open>
  The two halves of a tag as \<^verbatim>\<open>readTag\<close> assigns them (its variables \<^verbatim>\<open>sdeLen\<close> and
  \<^verbatim>\<open>sdeType\<close>), and the type codes for which \<^verbatim>\<open>NumBytes\<close> returns a width.
\<close>

definition tagLen :: "ByteOrder option \<Rightarrow> byte list \<Rightarrow> 16 word" where
  "tagLen bo tag =
     (if bo = Some BigEndian then le16 (take 2 tag) else le16 (take 2 (drop 2 tag)))"

definition tagType :: "ByteOrder option \<Rightarrow> byte list \<Rightarrow> 16 word" where
  "tagType bo tag =
     (if bo = Some BigEndian then le16 (take 2 (drop 2 tag)) else le16 (take 2 tag))"

definition fixedWidth :: "DataType set" where
  "fixedWidth =
     {DTmiINT8, DTmiUINT8, DTmiUTF8, DTmiINT16, DTmiUINT16, DTmiUTF16, DTmiINT32,
      DTmiUINT32, DTmiUTF32, DTmiSINGLE, DTmiDOUBLE, DTmiINT64, DTmiUINT64}"

text \<open>
  Two inflaters for closed examples: one refuses every input, the other stands for a
  stream whose inflated bytes are given as they are.
\<close>

definition noZlib :: inflater where
  "noZlib buf = Inl ''zlib: invalid header''"

definition storedZlib :: inflater where
  "storedZlib buf = Inr (buf, EOF)"

subsection \<open>Example data\<close>

text \<open>
  Bytes of a little-endian file for closed examples: the payload of a 1-by-1 matrix of
  class \<^verbatim>\<open>mxUINT8\<close> with a one-letter name \<open>c\<close> and the value \<open>v\<close>, behind its
  matrix tag; and the first three sub-elements of a 1-by-2 matrix named \<open>Z\<close> of a given
  class (array flags, dimensions, name).
\<close>

definition exampleChild :: "byte \<Rightarrow> byte \<Rightarrow> byte list" where
  "exampleChild c v =
     [14, 0, 0, 0, 48, 0, 0, 0,
      6, 0, 0, 0, 8, 0, 0, 0, 9, 0, 0, 0, 0, 0, 0, 0,
      5, 0, 0, 0, 8, 0, 0, 0, 1, 0, 0, 0, 1, 0, 0, 0,
      1, 0, 1, 0, c, 0, 0, 0,
      2, 0, 1, 0, v, 0, 0, 0]"

definition exampleHead :: "mxClass \<Rightarrow> byte list" where
  "exampleHead class =
     [6, 0, 0, 0, 8, 0, 0, 0, class, 0, 0, 0, 0, 0, 0, 0,
      5, 0, 0, 0, 8, 0, 0, 0, 1, 0, 0, 0, 2, 0, 0, 0,
      1, 0, 1, 0, 90, 0, 0, 0]"

text \<open>
  The first three sub-elements of a cell named \<open>Z\<close> with one row and a given number
  of columns; and an empty matrix as it stands in a cell: class \<^verbatim>\<open>mxDOUBLE\<close>,
  dimensions 0 by 0, an empty name, and a real part of type \<^verbatim>\<open>miDOUBLE\<close> with no bytes.
\<close>

definition exampleCellHead :: "byte \<Rightarrow> byte list" where
  "exampleCellHead cols =
     [6, 0, 0, 0, 8, 0, 0, 0, 1, 0, 0, 0, 0, 0, 0, 0,
      5, 0, 0, 0, 8, 0, 0, 0, 1, 0, 0, 0, cols, 0, 0, 0,
      1, 0, 1, 0, 90, 0, 0, 0]"

definition exampleEmpty :: "byte list" where
  "exampleEmpty =
     [14, 0, 0, 0, 48, 0, 0, 0,
      6, 0, 0, 0, 8, 0, 0, 0, 6, 0, 0, 0, 0, 0, 0, 0,
      5, 0, 0, 0, 8, 0, 0, 0, 0, 0, 0, 0, 0, 0, 0, 0,
      1, 0, 0, 0, 0, 0, 0, 0,
      9, 0, 0, 0, 0, 0, 0, 0]"

definition noFlags :: Flags where
  "noFlags = \<lparr>isLogical = False, isComplex = False, isGlobal = False\<rparr>"

text \<open>A file whose header has been read, little-endian, over a given stream.\<close>

definition exampleFile :: "byte list \<Rightarrow> File" where
  "exampleFile stream =
     \<lparr>Header = \<lparr>Level = ''5.0'', Platform = ''posix'', Endianess = Some LittleEndian\<rparr>,
      file_r = NewBuffer stream, hasReadAll = False, vars = Map.empty\<rparr>"

text \<open>
  A header text as \<^verbatim>\<open>scipy\<close> writes it, filled up with spaces to 116 bytes, and a
  stand-in for \<^verbatim>\<open>strings.TrimSpace\<close> that trims the ASCII space.
\<close>

definition asciiTrimSpace :: "string \<Rightarrow> string" where
  "asciiTrimSpace s =
     rev (dropWhile (\<lambda>c. c = CHR '' '') (rev (dropWhile (\<lambda>c. c = CHR '' '') s)))"

definition bytes_of_string :: "string \<Rightarrow> byte list" where
  "bytes_of_string s = map (\<lambda>c. of_nat (of_char c)) s"

definition exampleHeaderText :: "byte list" where
  "exampleHeaderText =
     bytes_of_string
       (''MATLAB 5.0 MAT-file Platform: posix, Created on: Mon Feb 18 17:12:08 2013''
        @ replicate 43 CHR '' '')"

section \<open>Properties\<close>

subsection \<open>Reading bytes and widths\<close>

lemma readAllBytes_prefix:
  "length bs = p \<Longrightarrow> (e \<longrightarrow> rest \<noteq> [] \<or> t = EOF) \<Longrightarrow>
   readAllBytes p \<lparr>pending = bs @ rest, terminal = t, eager = e\<rparr> =
     ((bs, None), \<lparr>pending = rest, terminal = t, eager = e\<rparr>)"
  by (simp add: readAllBytes_enough)


lemma NumBytes_width:
  assumes "NumBytes t = Inr w"
  shows "(w = 1 \<and> (t = DTmiINT8 \<or> t = DTmiUINT8 \<or> t = DTmiUTF8))
       \<or> (w = 2 \<and> (t = DTmiINT16 \<or> t = DTmiUINT16 \<or> t = DTmiUTF16))
       \<or> (w = 4 \<and> (t = DTmiINT32 \<or> t = DTmiUINT32 \<or> t = DTmiUTF32 \<or> t = DTmiSINGLE))
       \<or> (w = 8 \<and> (t = DTmiDOUBLE \<or> t = DTmiINT64 \<or> t = DTmiUINT64))"
  using assms by (simp add: NumBytes_def split: if_splits)

lemma Uint32_ok:
  "bo \<noteq> None \<Longrightarrow> 4 \<le> length b \<Longrightarrow> \<exists>u. Uint32 bo b = Inr u"
  by (cases bo; cases "the bo") (auto simp: Uint32_def)

subsection \<open>The payload decoder on well-formed chunks\<close>

lemma parseContent_ok:
  assumes nb: "NumBytes t = Inr w" and t: "t \<noteq> DTmiUTF32" and bo: "bo \<noteq> None"
    and len: "length chunk = w"
  shows "\<exists>v. parseContent t bo chunk = Inr v"
proof -
  obtain b where b: "bo = Some b" using bo by auto
  consider (w1) "w = 1" "t = DTmiINT8 \<or> t = DTmiUINT8 \<or> t = DTmiUTF8"
    | (w2) "w = 2" "t = DTmiINT16 \<or> t = DTmiUINT16 \<or> t = DTmiUTF16"
    | (w4) "w = 4" "t = DTmiINT32 \<or> t = DTmiUINT32 \<or> t = DTmiSINGLE"
    | (w8) "w = 8" "t = DTmiDOUBLE \<or> t = DTmiINT64 \<or> t = DTmiUINT64"
    using NumBytes_width[OF nb] t by blast
  then show ?thesis
  proof cases
    case w1
    then have "chunk \<noteq> []" using len by auto
    then show ?thesis using w1(2)
      by (auto simp: parseContent_def DataType_defs)
  next
    case w2
    then have "\<not> length chunk < 2" using len by simp
    then show ?thesis using w2(2) unfolding b
      by (cases b) (auto simp: parseContent_def Uint16_def DataType_defs)
  next
    case w4
    then have "\<not> length chunk < 4" using len by simp
    then show ?thesis using w4(2) unfolding b
      by (cases b) (auto simp: parseContent_def Uint32_def DataType_defs)
  next
    case w8
    then have "\<not> length chunk < 8" using len by simp
    then show ?thesis using w8(2) unfolding b
      by (cases b) (auto simp: parseContent_def Uint64_def DataType_defs)
  qed
qed

lemma parseMulti_loop_ok:
  assumes w: "NumBytes t = Inr w"
    and ok: "\<And>j. j < i + k \<Longrightarrow> \<exists>v. parseContent t bo (take w (drop (j * w) data)) = Inr v"
    and len: "(i + k) * w \<le> length data"
  shows "\<exists>vs. parseMulti_loop k t bo data i = Inr vs \<and> length vs = k \<and>
           (\<forall>j<k. parseContent t bo (take w (drop ((i + j) * w) data)) = Inr (vs ! j))"
  using ok len
proof (induction k arbitrary: i)
  case 0
  then show ?case by simp
next
  case (Suc k)
  have b: "(i + 1) * w \<le> length data"
  proof -
    have "(i + 1) * w \<le> (i + Suc k) * w" by (rule mult_le_mono1) simp
    then show ?thesis using Suc.prems(2) by linarith
  qed
  obtain v where v: "parseContent t bo (take w (drop (i * w) data)) = Inr v"
    using Suc.prems(1)[of i] by auto
  have "\<exists>vs. parseMulti_loop k t bo data (Suc i) = Inr vs \<and> length vs = k \<and>
           (\<forall>j<k. parseContent t bo (take w (drop ((Suc i + j) * w) data)) = Inr (vs ! j))"
    using Suc.IH[of "Suc i"] Suc.prems by simp
  then obtain vs where vs: "parseMulti_loop k t bo data (Suc i) = Inr vs" "length vs = k"
    "\<forall>j<k. parseContent t bo (take w (drop ((Suc i + j) * w) data)) = Inr (vs ! j)"
    by blast
  have run: "parseMulti_loop (Suc k) t bo data i = Inr (v # vs)"
    using w b v vs(1) by simp
  have "\<forall>j<Suc k. parseContent t bo (take w (drop ((i + j) * w) data)) = Inr ((v # vs) ! j)"
  proof (intro allI impI)
    fix j assume "j < Suc k"
    show "parseContent t bo (take w (drop ((i + j) * w) data)) = Inr ((v # vs) ! j)"
    proof (cases j)
      case 0
      then show ?thesis using v by simp
    next
      case (Suc j')
      then show ?thesis using vs(3) \<open>j < Suc k\<close> by simp
    qed
  qed
  then show ?case using run vs(2) by simp
qed

lemma parseMulti_small:
  assumes nb: "NumBytes dt = Inr w" and bo: "bo \<noteq> None" and len: "length payload = 4"
    and fit: "n * w \<le> 4" and utf: "dt = DTmiUTF32 \<longrightarrow> n = 0"
  shows "\<exists>vs. parseMulti dt bo payload n = Inr vs \<and> length vs = n \<and>
           (\<forall>j<n. parseContent dt bo (take w (drop (j * w) payload)) = Inr (vs ! j))"
proof -
  have ok: "\<exists>v. parseContent dt bo (take w (drop (j * w) payload)) = Inr v"
    if j: "j < 0 + n" for j
  proof -
    have "n \<noteq> 0" using j by simp
    then have ne: "dt \<noteq> DTmiUTF32" using utf by auto
    have "(j + 1) * w \<le> n * w" using j by (intro mult_le_mono1) simp
    then have "j * w + w \<le> length payload" using fit len by simp
    then have "length (take w (drop (j * w) payload)) = w" by simp
    then show ?thesis using parseContent_ok[OF nb ne bo] by blast
  qed
  have "(0 + n) * w \<le> length payload" using fit len by simp
  from parseMulti_loop_ok[OF nb ok this]
  show ?thesis by (simp add: parseMulti_def)
qed

text \<open>When the elements do not fit into the slice, or the type is UTF-32.\<close>

lemma parseMulti_loop_overrun:
  assumes w: "NumBytes t = Inr w" and t: "t \<noteq> DTmiUTF32" and bo: "bo \<noteq> None"
    and inv: "i * w \<le> length data" and over: "length data < (i + k) * w"
  shows "parseMulti_loop k t bo data i = Inl (Panic ''runtime error: slice bounds out of range'')"
  using inv over
proof (induction k arbitrary: i)
  case 0
  then show ?case by simp
next
  case (Suc k)
  show ?case
  proof (cases "length data < (i + 1) * w")
    case True
    then show ?thesis using w by simp
  next
    case False
    then have fit: "i * w + w \<le> length data" by simp
    then have "length (take w (drop (i * w) data)) = w" by simp
    from parseContent_ok[OF w t bo this]
    obtain v where v: "parseContent t bo (take w (drop (i * w) data)) = Inr v" by blast
    have "parseMulti_loop k t bo data (Suc i) =
        Inl (Panic ''runtime error: slice bounds out of range'')"
      using Suc.IH[of "Suc i"] fit Suc.prems(2) by simp
    then show ?thesis using w False v by simp
  qed
qed

lemma parseMulti_loop_UTF32:
  "4 \<le> length data \<Longrightarrow>
   parseMulti_loop (Suc k) DTmiUTF32 bo data 0 = Inl (Panic ''Not supported'')"
  by (simp add: NumBytes_def parseContent_def DataType_defs)

subsection \<open>The tag reader\<close>

lemma readTag_unfold:
  "length tag = 8 \<Longrightarrow> (e \<longrightarrow> rest \<noteq> [] \<or> t = EOF) \<Longrightarrow>
   readTag bo \<lparr>pending = tag @ rest, terminal = t, eager = e\<rparr> =
     (if tagLen bo tag \<noteq> 0 then
        (case NumBytes (ucast (tagType bo tag)) of
           Inl f \<Rightarrow> Inl f
         | Inr w \<Rightarrow>
             (case parseMulti (ucast (tagType bo tag)) bo (drop 4 tag)
                     (unat (tagLen bo tag) div w) of
                Inl f \<Rightarrow> Inl f
              | Inr c \<Rightarrow> Inr (Some (SmallData (ucast (tagType bo tag)) c), DataTypeUnknown, 0)))
      else
        (case Uint32 bo (take 4 tag) of
           Inl f \<Rightarrow> Inl f
         | Inr ty \<Rightarrow>
             (case Uint32 bo (drop 4 tag) of
                Inl f \<Rightarrow> Inl f
              | Inr n \<Rightarrow> Inr (None, ty, unat n))),
      \<lparr>pending = rest, terminal = t, eager = e\<rparr>)"
  by (simp add: readTag_def readAllBytes_prefix tagLen_def tagType_def Let_def
      split: sum.splits)

text \<open>
  A small element that is not well-formed: the type has a width, but the elements pass
  the four inline bytes or are UTF-32. The tag reader panics.
\<close>

lemma readTag_small_malformed:
  assumes tag: "length tag = 8" and src: "e \<longrightarrow> rest \<noteq> [] \<or> t = EOF"
    and bo: "bo \<noteq> None" and nz: "tagLen bo tag \<noteq> 0"
    and w: "NumBytes (ucast (tagType bo tag)) = Inr w"
    and bad: "4 < (unat (tagLen bo tag) div w) * w
              \<or> (ucast (tagType bo tag) = DTmiUTF32 \<and> 0 < unat (tagLen bo tag) div w)"
  shows "\<exists>m. readTag bo \<lparr>pending = tag @ rest, terminal = t, eager = e\<rparr> =
     (Inl (Panic m), \<lparr>pending = rest, terminal = t, eager = e\<rparr>)"
proof (cases "ucast (tagType bo tag) = DTmiUTF32 \<and> 0 < unat (tagLen bo tag) div w")
  case True
  then obtain k where k: "unat (tagLen bo tag) div w = Suc k" by (cases "unat (tagLen bo tag) div w") auto
  have "parseMulti DTmiUTF32 bo (drop 4 tag) (Suc k) = Inl (Panic ''Not supported'')"
    unfolding parseMulti_def using tag by (intro parseMulti_loop_UTF32) simp
  then show ?thesis using True nz w k by (simp add: readTag_unfold[OF tag src])
next
  case False
  then have over: "4 < (unat (tagLen bo tag) div w) * w" using bad by blast
  have ne: "ucast (tagType bo tag) \<noteq> DTmiUTF32"
  proof
    assume "ucast (tagType bo tag) = DTmiUTF32"
    moreover from this False have "unat (tagLen bo tag) div w = 0" by simp
    ultimately show False using over by simp
  qed
  have "parseMulti (ucast (tagType bo tag)) bo (drop 4 tag) (unat (tagLen bo tag) div w) =
      Inl (Panic ''runtime error: slice bounds out of range'')"
    unfolding parseMulti_def using tag over
    by (intro parseMulti_loop_overrun[OF w ne bo]) simp_all
  then show ?thesis using nz w by (simp add: readTag_unfold[OF tag src])
qed

text \<open>
  C1, as the code has it. For a tag of 8 bytes and a resolved byte order, the halves
  are bytes 0-1 and 2-3 read little-endian, (type, length) for a little-endian file and
  (length, type) for a big-endian one. When the length half is not zero, the type has a
  byte width \<open>w\<close>, the \<open>length div w\<close> elements fit into the four bytes left, and the type
  is not UTF-32 (unless there is no element to decode), the reader returns a small element
  of that type with \<open>length div w\<close> values, value \<open>j\<close> decoded from the \<open>j\<close>-th chunk of
  \<open>w\<close> bytes of bytes 4-7, and has consumed the 8 bytes and no more. When the length half
  is zero, it returns a normal tag: the type is bytes 0-3 and the length bytes 4-7, read
  as 32-bit values in the resolved byte order, and again only the 8 bytes are consumed.
  The byte source is of either kind; the one case set aside is an eager source that ends
  with the tag and with an error other than \<^verbatim>\<open>EOF\<close>, where the read of the tag itself
  returns that error.
\<close>

theorem readTag_small_or_normal:
  assumes tag: "length tag = 8" and bo: "bo = Some LittleEndian \<or> bo = Some BigEndian"
    and src: "e \<longrightarrow> rest \<noteq> [] \<or> t = EOF"
  shows
   "(tagLen bo tag \<noteq> 0 \<longrightarrow>
       (\<forall>w. NumBytes (ucast (tagType bo tag)) = Inr w
             \<and> (unat (tagLen bo tag) div w) * w \<le> 4
             \<and> (ucast (tagType bo tag) = DTmiUTF32 \<longrightarrow> unat (tagLen bo tag) div w = 0) \<longrightarrow>
          (\<exists>vs. readTag bo \<lparr>pending = tag @ rest, terminal = t, eager = e\<rparr> =
                   (Inr (Some (SmallData (ucast (tagType bo tag)) vs), DataTypeUnknown, 0),
                    \<lparr>pending = rest, terminal = t, eager = e\<rparr>)
                \<and> length vs = unat (tagLen bo tag) div w
                \<and> (\<forall>j<length vs.
                      parseContent (ucast (tagType bo tag)) bo
                        (take w (drop (j * w) (drop 4 tag))) = Inr (vs ! j)))))
    \<and> (tagLen bo tag = 0 \<longrightarrow>
         (\<exists>ty n. Uint32 bo (take 4 tag) = Inr ty \<and> Uint32 bo (drop 4 tag) = Inr n
                \<and> readTag bo \<lparr>pending = tag @ rest, terminal = t, eager = e\<rparr> =
                    (Inr (None, ty, unat n), \<lparr>pending = rest, terminal = t, eager = e\<rparr>)))"
proof (intro conjI impI allI)
  fix w
  assume nz: "tagLen bo tag \<noteq> 0"
    and h: "NumBytes (ucast (tagType bo tag)) = Inr w
             \<and> (unat (tagLen bo tag) div w) * w \<le> 4
             \<and> (ucast (tagType bo tag) = DTmiUTF32 \<longrightarrow> unat (tagLen bo tag) div w = 0)"
  have bo': "bo \<noteq> None" using bo by auto
  have "length (drop 4 tag) = 4" using tag by simp
  from parseMulti_small[OF _ bo' this, of "ucast (tagType bo tag)" w "unat (tagLen bo tag) div w"] h
  obtain vs where vs: "parseMulti (ucast (tagType bo tag)) bo (drop 4 tag)
        (unat (tagLen bo tag) div w) = Inr vs"
     "length vs = unat (tagLen bo tag) div w"
     "\<forall>j<unat (tagLen bo tag) div w. parseContent (ucast (tagType bo tag)) bo
                        (take w (drop (j * w) (drop 4 tag))) = Inr (vs ! j)"
    by blast
  show "\<exists>vs. readTag bo \<lparr>pending = tag @ rest, terminal = t, eager = e\<rparr> =
                   (Inr (Some (SmallData (ucast (tagType bo tag)) vs), DataTypeUnknown, 0),
                    \<lparr>pending = rest, terminal = t, eager = e\<rparr>)
                \<and> length vs = unat (tagLen bo tag) div w
                \<and> (\<forall>j<length vs.
                      parseContent (ucast (tagType bo tag)) bo
                        (take w (drop (j * w) (drop 4 tag))) = Inr (vs ! j))"
    using vs h nz by (intro exI[of _ vs]) (simp add: readTag_unfold[OF tag src])
next
  assume z: "tagLen bo tag = 0"
  have bo': "bo \<noteq> None" using bo by auto
  obtain ty where ty: "Uint32 bo (take 4 tag) = Inr ty"
    using Uint32_ok[OF bo', of "take 4 tag"] tag by auto
  obtain n where n: "Uint32 bo (drop 4 tag) = Inr n"
    using Uint32_ok[OF bo', of "drop 4 tag"] tag by auto
  show "\<exists>ty n. Uint32 bo (take 4 tag) = Inr ty \<and> Uint32 bo (drop 4 tag) = Inr n
                \<and> readTag bo \<lparr>pending = tag @ rest, terminal = t, eager = e\<rparr> =
                    (Inr (None, ty, unat n), \<lparr>pending = rest, terminal = t, eager = e\<rparr>)"
    using ty n z by (simp add: readTag_unfold[OF tag src])
qed


text \<open>
  An INT8 small element of three bytes in a little-endian file, and a normal tag
  (UINT32, 8 bytes) in a big-endian file.
\<close>

theorem readTag_small_or_normal_witness:
  "readTag (Some LittleEndian) \<lparr>pending = [1, 0, 3, 0, 65, 66, 67, 0] @ [9], terminal = EOF, eager = False\<rparr> =
     (Inr (Some (SmallData DTmiINT8 [VInt8 65, VInt8 66, VInt8 67]), DataTypeUnknown, 0),
      \<lparr>pending = [9], terminal = EOF, eager = False\<rparr>)
   \<and> readTag (Some BigEndian) \<lparr>pending = [0, 0, 0, 6, 0, 0, 0, 8] @ [9], terminal = EOF, eager = False\<rparr> =
     (Inr (None, DTmiUINT32, 8), \<lparr>pending = [9], terminal = EOF, eager = False\<rparr>)"
proof -
  let ?s = "[1, 0, 3, 0, 65, 66, 67, 0] :: byte list"
  let ?n = "[0, 0, 0, 6, 0, 0, 0, 8] :: byte list"
  have len: "length ?s = 8" "length ?n = 8" by simp_all
  have nz: "tagLen (Some LittleEndian) ?s \<noteq> 0"
    by code_simp
  have w: "NumBytes (ucast (tagType (Some LittleEndian) ?s)) = Inr 1
      \<and> (unat (tagLen (Some LittleEndian) ?s) div 1) * 1 \<le> 4
      \<and> (ucast (tagType (Some LittleEndian) ?s) = DTmiUTF32 \<longrightarrow>
           unat (tagLen (Some LittleEndian) ?s) div 1 = 0)"
    by code_simp
  have z: "tagLen (Some BigEndian) ?n = 0"
    by code_simp
  have ty: "ucast (tagType (Some LittleEndian) ?s) = DTmiINT8"
    by code_simp
  have u: "Uint32 (Some BigEndian) (take 4 ?n) = Inr DTmiUINT32"
    "Uint32 (Some BigEndian) (drop 4 ?n) = Inr 8"
    by code_simp+
  have src: "False \<longrightarrow> [9 :: byte] \<noteq> [] \<or> EOF = EOF" by simp
  from readTag_small_or_normal[OF len(1) _ src, of "Some LittleEndian"] nz w
  obtain vs where vs:
    "readTag (Some LittleEndian) \<lparr>pending = ?s @ [9], terminal = EOF, eager = False\<rparr> =
       (Inr (Some (SmallData (ucast (tagType (Some LittleEndian) ?s)) vs), DataTypeUnknown, 0),
        \<lparr>pending = [9], terminal = EOF, eager = False\<rparr>)"
    by blast
  have "readTag (Some LittleEndian) \<lparr>pending = ?s @ [9], terminal = EOF, eager = False\<rparr> =
     (Inr (Some (SmallData DTmiINT8 [VInt8 65, VInt8 66, VInt8 67]), DataTypeUnknown, 0),
      \<lparr>pending = [9], terminal = EOF, eager = False\<rparr>)"
    by code_simp
  with vs have A: "readTag (Some LittleEndian) \<lparr>pending = ?s @ [9], terminal = EOF, eager = False\<rparr> =
     (Inr (Some (SmallData DTmiINT8 [VInt8 65, VInt8 66, VInt8 67]), DataTypeUnknown, 0),
      \<lparr>pending = [9], terminal = EOF, eager = False\<rparr>)"
    by simp
  from readTag_small_or_normal[OF len(2) _ src, of "Some BigEndian"] z
  obtain ty' n where B': "Uint32 (Some BigEndian) (take 4 ?n) = Inr ty'"
    "Uint32 (Some BigEndian) (drop 4 ?n) = Inr n"
    "readTag (Some BigEndian) \<lparr>pending = ?n @ [9], terminal = EOF, eager = False\<rparr> =
       (Inr (None, ty', unat n), \<lparr>pending = [9], terminal = EOF, eager = False\<rparr>)"
    by blast
  have "ty' = DTmiUINT32" "n = 8" using B'(1,2) u by simp_all
  then have B: "readTag (Some BigEndian) \<lparr>pending = ?n @ [9], terminal = EOF, eager = False\<rparr> =
     (Inr (None, DTmiUINT32, 8), \<lparr>pending = [9], terminal = EOF, eager = False\<rparr>)"
    using B'(3) by simp
  show ?thesis using A B by blast
qed

text \<open>
  A nonzero length half does not always give a small element: a UTF-32 element of
  4 bytes, and an INT8 element whose length half is 5, end in a panic.
\<close>

theorem readTag_small_counterexample:
  "readTag (Some LittleEndian) \<lparr>pending = [18, 0, 4, 0, 65, 0, 0, 0], terminal = EOF, eager = False\<rparr> =
     (Inl (Panic ''Not supported''), \<lparr>pending = [], terminal = EOF, eager = False\<rparr>)
   \<and> tagLen (Some LittleEndian) [18, 0, 4, 0, 65, 0, 0, 0] = 4
   \<and> readTag (Some LittleEndian) \<lparr>pending = [1, 0, 5, 0, 65, 66, 67, 68], terminal = EOF, eager = False\<rparr> =
     (Inl (Panic ''runtime error: slice bounds out of range''), \<lparr>pending = [], terminal = EOF, eager = False\<rparr>)
   \<and> tagLen (Some LittleEndian) [1, 0, 5, 0, 65, 66, 67, 68] = 5"
  by code_simp

subsection \<open>Types without a byte width\<close>

text \<open>\<open>fixedWidth\<close> is exactly the set of type codes that have a width.\<close>

lemma NumBytes_fixed: "d \<in> fixedWidth \<longleftrightarrow> (\<exists>w. NumBytes d = Inr w)"
  by (auto simp: NumBytes_def fixedWidth_def)

lemma variable_length_not_fixed:
  "DTmiMATRIX \<notin> fixedWidth" "DTmiCOMPRESSED \<notin> fixedWidth" "DataTypeUnknown \<notin> fixedWidth"
  by (simp_all add: fixedWidth_def DataType_defs)



subsection \<open>Array flags\<close>

text \<open>
  The result of \<^verbatim>\<open>arrayFlags\<close> on a well-formed sub-element, a normal tag (UINT32, 8)
  and 8 payload bytes, in terms of the flags word: a flag is reported when the word
  shifted right by its position is 1, and the class is the low byte.
\<close>

lemma arrayFlags_payload:
  assumes tag: "length tag = 8" "tagLen bo tag = 0" "Uint32 bo (take 4 tag) = Inr DTmiUINT32"
      "Uint32 bo (drop 4 tag) = Inr 8"
    and pl: "length payload = 8"
    and src: "e \<longrightarrow> rest \<noteq> [] \<or> t = EOF"
    and fc: "fc = (if bo = Some BigEndian then le16 (drop 4 payload) else le16 (take 4 payload))"
  shows "arrayFlags bo \<lparr>pending = tag @ payload @ rest, terminal = t, eager = e\<rparr> =
     (Inr (\<lparr>isLogical = (drop_bit 9 fc = 1), isComplex = (drop_bit 11 fc = 1),
             isGlobal = (drop_bit 10 fc = 1)\<rparr>, ucast (fc AND 0xFF)),
      \<lparr>pending = rest, terminal = t, eager = e\<rparr>)"
proof -
  have s1: "e \<longrightarrow> payload @ rest \<noteq> [] \<or> t = EOF" using pl by auto
  show ?thesis
    using tag(2-) pl fc src
    by (simp add: arrayFlags_def readTag_unfold[OF tag(1) s1] readAllBytes_prefix Let_def)
qed

lemma flag_test_is_not_bit_test:
  "drop_bit 10 (fc :: 16 word) = 1 \<longleftrightarrow> bit fc 10 \<and> \<not> bit fc 11 \<and> \<not> bit fc 12
     \<and> \<not> bit fc 13 \<and> \<not> bit fc 14 \<and> \<not> bit fc 15"
proof
  assume h: "drop_bit 10 fc = 1"
  have b: "bit fc (10 + k) = bit (drop_bit 10 fc) k" for k
    by (simp add: bit_drop_bit_eq add.commute)
  show "bit fc 10 \<and> \<not> bit fc 11 \<and> \<not> bit fc 12 \<and> \<not> bit fc 13 \<and> \<not> bit fc 14 \<and> \<not> bit fc 15"
    using b[of 0] b[of 1] b[of 2] b[of 3] b[of 4] b[of 5] unfolding h
    by (simp add: bit_1_iff)
next
  assume h: "bit fc 10 \<and> \<not> bit fc 11 \<and> \<not> bit fc 12 \<and> \<not> bit fc 13 \<and> \<not> bit fc 14 \<and> \<not> bit fc 15"
  show "drop_bit 10 fc = 1"
  proof (rule bit_word_eqI)
    fix n assume n: "n < LENGTH(16)"
    have b: "bit (drop_bit 10 fc) n = bit fc (10 + n)"
      by (simp add: bit_drop_bit_eq add.commute)
    consider "n = 0" | "n = 1" | "n = 2" | "n = 3" | "n = 4" | "n = 5" | "6 \<le> n"
      by linarith
    then show "bit (drop_bit 10 fc) n = bit (1 :: 16 word) n"
    proof cases
      case 7
      then have "\<not> bit fc (10 + n)" by (auto dest: bit_imp_le_length)
      then show ?thesis using b 7 by (simp add: bit_1_iff)
    qed (use h b in \<open>simp_all add: bit_1_iff\<close>)
  qed
qed

text \<open>
  C3. The flags word \<open>0x0C06\<close> has bits 10 and 11 set (a global, complex matrix of
  class 6). The code tests each flag with \<^verbatim>\<open>flagsAndClass>>k == 1\<close>, which also asks
  that every bit above \<open>k\<close> is clear: the complex flag comes out set, the global flag
  does not, although bit 10 is set. The class is the low byte.
\<close>

theorem arrayFlags_global_and_complex:
  "arrayFlags (Some LittleEndian)
     (NewBuffer [6, 0, 0, 0, 8, 0, 0, 0, 6, 0x0C, 0, 0, 0, 0, 0, 0]) =
     (Inr (\<lparr>isLogical = False, isComplex = True, isGlobal = False\<rparr>, 6), NewBuffer [])
   \<and> bit (le16 (take 4 [6, 0x0C, 0, 0, 0, 0, 0, 0])) 10"
  by code_simp

subsection \<open>Normal elements of a primitive type\<close>

text \<open>
  What the default branch of \<^verbatim>\<open>readElement\<close> does with a normal tag of a type that is
  neither compressed nor matrix: it takes the padded payload, \<open>ceil(len / 8) * 8\<close> bytes,
  off the stream and hands the whole block to one call of \<^verbatim>\<open>parseContent\<close>.
\<close>

lemma padTo64Bit_ceil: "padTo64Bit p = ((p + 7) div 8) * 8"
  unfolding padTo64Bit_def by (cases "p mod 8 = 0") presburger+

lemma readElement_normal:
  assumes tag: "length tag = 8" "tagLen bo tag = 0" "Uint32 bo (take 4 tag) = Inr dt"
      "Uint32 bo (drop 4 tag) = Inr len"
    and dt: "dt \<noteq> DTmiCOMPRESSED" "dt \<noteq> DTmiMATRIX"
    and pl: "length payload = padTo64Bit (unat len)"
    and src: "e \<longrightarrow> rest \<noteq> [] \<or> t = EOF"
  shows "readElement (Suc n) zr bo \<lparr>pending = tag @ payload @ rest, terminal = t, eager = e\<rparr> =
     Some (map_sum id (Sub dt) (parseContent dt bo payload), \<lparr>pending = rest, terminal = t, eager = e\<rparr>)"
proof -
  have s1: "e \<longrightarrow> payload @ rest \<noteq> [] \<or> t = EOF" using src by auto
  show ?thesis
    using tag(2-) dt pl src
    by (simp add: readTag_unfold[OF tag(1) s1] readAllBytes_prefix split: sum.splits)
qed

text \<open>
  C2. An INT32 element of declared length 8 holds the two numbers 1 and 2; the element
  reader consumes the 8 payload bytes and returns the single scalar 1. An INT16 element
  of declared length 1 is decoded from two bytes, the declared byte and the first byte
  of padding: with padding \<open>0\<close> the value is 1, with padding \<open>255\<close> it is \<open>0xFF01\<close>.
\<close>

theorem readElement_normal_single_scalar:
  "readElement 1 noZlib (Some LittleEndian)
     (NewBuffer [5, 0, 0, 0, 8, 0, 0, 0, 1, 0, 0, 0, 2, 0, 0, 0]) =
     Some (Inr (Sub DTmiINT32 (VInt32 1)), NewBuffer [])
   \<and> readElement 1 noZlib (Some LittleEndian)
     (NewBuffer [3, 0, 0, 0, 1, 0, 0, 0, 1, 0, 0, 0, 0, 0, 0, 0]) =
     Some (Inr (Sub DTmiINT16 (VInt16 1)), NewBuffer [])
   \<and> readElement 1 noZlib (Some LittleEndian)
     (NewBuffer [3, 0, 0, 0, 1, 0, 0, 0, 1, 255, 0, 0, 0, 0, 0, 0]) =
     Some (Inr (Sub DTmiINT16 (VInt16 0xFF01)), NewBuffer [])"
  by code_simp

subsection \<open>Compressed elements\<close>

text \<open>
  The compressed branch of \<^verbatim>\<open>readElement\<close>, for a stream that holds the tag and the
  declared number of payload bytes: the payload is taken off the stream, the bytes after
  it stay, and the result follows the inflater and the nested run of the element reader
  over the inflating reader.
\<close>

lemma readElement_compressed:
  assumes tag: "length tag = 8" "tagLen bo tag = 0"
      "Uint32 bo (take 4 tag) = Inr DTmiCOMPRESSED" "Uint32 bo (drop 4 tag) = Inr len"
    and pl: "length payload = unat len"
    and src: "e \<longrightarrow> rest \<noteq> [] \<or> t = EOF"
  shows "readElement (Suc n) zr bo \<lparr>pending = tag @ payload @ rest, terminal = t, eager = e\<rparr> =
     (case zr payload of
        Inl err \<Rightarrow> Some (Inl (Err err), \<lparr>pending = rest, terminal = t, eager = e\<rparr>)
      | Inr (out, t') \<Rightarrow>
          (case readAllElements n zr bo (zlibReader out t') of
             None \<Rightarrow> None
           | Some (Inl f, cr') \<Rightarrow> Some (Inl f, \<lparr>pending = rest, terminal = t, eager = e\<rparr>)
           | Some (Inr allElements, cr') \<Rightarrow>
               (if length allElements \<noteq> 1 then
                  Some (Inl (Panic ''This library assumes compressed elements have exactly one sub element''),
                        \<lparr>pending = rest, terminal = t, eager = e\<rparr>)
                else Some (Inr (allElements ! 0), \<lparr>pending = rest, terminal = t, eager = e\<rparr>))))"
proof -
  have s1: "e \<longrightarrow> payload @ rest \<noteq> [] \<or> t = EOF" using src by auto
  show ?thesis
    using tag(2-) pl src
    by (simp add: readTag_unfold[OF tag(1) s1] readAllBytes_prefix split: sum.splits prod.splits)
qed

text \<open>
  The test the branch applies is on the number of elements the nested run returns:
  one element is the result, any other number is the panic of the library's assumption.
\<close>

lemma readElement_compressed_count:
  assumes tag: "length tag = 8" "tagLen bo tag = 0"
      "Uint32 bo (take 4 tag) = Inr DTmiCOMPRESSED" "Uint32 bo (drop 4 tag) = Inr len"
    and pl: "length payload = unat len"
    and src: "e \<longrightarrow> rest \<noteq> [] \<or> t = EOF"
    and inf: "zr payload = Inr (out, t')"
    and sub: "readAllElements n zr bo (zlibReader out t') = Some (Inr els, cr')"
  shows "(\<forall>el. els = [el] \<longrightarrow>
            readElement (Suc n) zr bo \<lparr>pending = tag @ payload @ rest, terminal = t, eager = e\<rparr> =
              Some (Inr el, \<lparr>pending = rest, terminal = t, eager = e\<rparr>))
       \<and> (length els \<noteq> 1 \<longrightarrow>
            readElement (Suc n) zr bo \<lparr>pending = tag @ payload @ rest, terminal = t, eager = e\<rparr> =
              Some (Inl (Panic ''This library assumes compressed elements have exactly one sub element''),
                    \<lparr>pending = rest, terminal = t, eager = e\<rparr>))"
  by (simp add: readElement_compressed[OF tag pl src] inf sub del: readElement.simps)

text \<open>
  The nested run, however, does not return every element of the inflated stream. It
  stops without error at the first element whose decoding ends in the error \<^verbatim>\<open>EOF\<close>:
  a matrix tag of length 0 makes \<^verbatim>\<open>miMatrix\<close> read its array flags from an empty buffer,
  and the loop of \<^verbatim>\<open>readAllElements\<close> takes that \<^verbatim>\<open>EOF\<close> for the end of its own stream.
  And a last unit of fewer than 8 bytes arrives from the inflating reader together with
  \<^verbatim>\<open>EOF\<close>, which \<^verbatim>\<open>readAllBytes\<close> hands on as a plain \<^verbatim>\<open>EOF\<close>.
\<close>

lemma readAllElements_stops_at_empty_matrix:
  "readAllElements 5 storedZlib (Some LittleEndian)
     (zlibReader (exampleChild 97 7 @ [14, 0, 0, 0, 0, 0, 0, 0] @ exampleChild 98 8) EOF) =
     Some (Inr [Mat (Matrix ''a'' [1, 1] noFlags mxUINT8 [VUInt8 7])],
           zlibReader (exampleChild 98 8) EOF)"
  by code_simp

text \<open>
  Failures that do come out of the branch: an error of the inflater, a panic of the nested
  run, and an inflated stream of nothing but three stray bytes, which the nested run
  takes for an empty one.
\<close>

lemma readElement_compressed_failures:
  "readElement 7 noZlib (Some LittleEndian)
     (NewBuffer ([15, 0, 0, 0, 8, 0, 0, 0] @ [1, 0, 1, 0, 65, 0, 0, 0])) =
     Some (Inl (Err ''zlib: invalid header''), NewBuffer [])
   \<and> readElement 7 storedZlib (Some LittleEndian)
     (NewBuffer ([15, 0, 0, 0, 8, 0, 0, 0] @ [14, 0, 1, 0, 0, 0, 0, 0])) =
     Some (Inl (Panic ''Cannot get NumBytes of variable length type: miMATRIX''), NewBuffer [])
   \<and> readElement 7 storedZlib (Some LittleEndian)
     (NewBuffer ([15, 0, 0, 0, 3, 0, 0, 0] @ [0, 0, 0])) =
     Some (Inl (Panic ''This library assumes compressed elements have exactly one sub element''),
           NewBuffer [])"
  by code_simp

text \<open>
  C4. A compressed element whose payload inflates to three elements, the matrix \<open>a\<close>,
  a matrix tag of length 0 and the matrix \<open>b\<close>: the element reader takes the declared
  120 bytes and returns \<open>a\<close> as the result of the compressed element, without failure.
  The same happens when the payload inflates to the matrix \<open>a\<close> followed by three
  stray bytes. An inflated stream of two small elements is refused with the panic, and
  so is an empty one. (The inflater of the example hands the payload on as it is.)
\<close>

theorem compressed_extra_elements_accepted:
  "readElement 7 storedZlib (Some LittleEndian)
     (NewBuffer ([15, 0, 0, 0, 120, 0, 0, 0]
                 @ exampleChild 97 7 @ [14, 0, 0, 0, 0, 0, 0, 0] @ exampleChild 98 8)) =
     Some (Inr (Mat (Matrix ''a'' [1, 1] noFlags mxUINT8 [VUInt8 7])), NewBuffer [])
   \<and> readElement 7 storedZlib (Some LittleEndian)
     (NewBuffer ([15, 0, 0, 0, 59, 0, 0, 0] @ exampleChild 97 7 @ [0, 0, 0])) =
     Some (Inr (Mat (Matrix ''a'' [1, 1] noFlags mxUINT8 [VUInt8 7])), NewBuffer [])
   \<and> readElement 7 storedZlib (Some LittleEndian)
     (NewBuffer ([15, 0, 0, 0, 16, 0, 0, 0]
                 @ [1, 0, 1, 0, 65, 0, 0, 0, 1, 0, 1, 0, 66, 0, 0, 0])) =
     Some (Inl (Panic ''This library assumes compressed elements have exactly one sub element''),
           NewBuffer [])
   \<and> readElement 7 storedZlib (Some LittleEndian) (NewBuffer [15, 0, 0, 0, 0, 0, 0, 0]) =
     Some (Inl (Panic ''This library assumes compressed elements have exactly one sub element''),
           NewBuffer [])"
  by code_simp

subsection \<open>Matrices\<close>

text \<open>The element read first is the first of the result.\<close>

lemma readAllElements_in_order:
  assumes "readElement n zr bo r = Some (Inr el, r1)"
    and "readAllElements n zr bo r1 = Some (Inr els, r2)"
  shows "readAllElements (Suc n) zr bo r = Some (Inr (el # els), r2)"
  using assms by simp

lemma cell_values_Mat: "cell_values (map Mat ms) = Inr (map VMatrix ms)"
  by (induction ms) simp_all

lemma cell_values_not_Mat:
  "\<exists>e\<in>set els. \<forall>m. e \<noteq> Mat m \<Longrightarrow>
   cell_values els = Inl (Panic ''interface conversion: matlab.Element is not *matlab.Matrix'')"
  by (induction els rule: cell_values.induct) auto

text \<open>
  A matrix of class cell whose flags, dimensions and name have been read: the element
  reader runs over the bytes that are left. When it yields the elements \<open>els\<close> and all
  of them are matrices, the value of the decoded matrix is the list of those matrices, in
  the order returned; when one of them is not a matrix, decoding panics.
\<close>

lemma miMatrix_cell:
  assumes fl: "arrayFlags bo (NewBuffer data) = (Inr (flags, mxCELL), r1)"
    and dm: "dimensionsArray bo r1 = (Inr dim, r2)"
    and nm: "arrayName bo r2 = ((name, err), r3)" "notEOF err = None"
    and ch: "readAllElements n zr bo r3 = Some (Inr els, r4)"
  shows "(\<forall>ms. els = map Mat ms \<longrightarrow>
            miMatrix (Suc n) zr bo data = Some (Inr (Matrix name dim flags mxCELL (map VMatrix ms))))
       \<and> ((\<exists>e\<in>set els. \<forall>m. e \<noteq> Mat m) \<longrightarrow>
            miMatrix (Suc n) zr bo data =
              Some (Inl (Panic ''interface conversion: matlab.Element is not *matlab.Matrix'')))"
proof -
  have c: "mxCELL \<noteq> mxSPARSE" by (simp add: mxClass_defs)
  have m: "miMatrix (Suc n) zr bo data =
      (case cell_values els of Inl f \<Rightarrow> Some (Inl f)
       | Inr res \<Rightarrow> Some (Inr (Matrix name dim flags mxCELL res)))"
    using fl dm nm ch c by (simp del: readAllElements.simps)
  show ?thesis
    unfolding m using cell_values_not_Mat[of els]
    by (auto simp: cell_values_Mat)
qed

text \<open>
  A cell named \<open>Z\<close> with the two matrices \<open>a\<close> and \<open>b\<close>, and the same cell with a
  small element in the place of the second matrix.
\<close>

lemma miMatrix_cell_example:
  "miMatrix 5 noZlib (Some LittleEndian)
     (exampleHead mxCELL @ exampleChild 97 7 @ exampleChild 98 8) =
     Some (Inr (Matrix ''Z'' [1, 2] noFlags mxCELL
       [VMatrix (Matrix ''a'' [1, 1] noFlags mxUINT8 [VUInt8 7]),
        VMatrix (Matrix ''b'' [1, 1] noFlags mxUINT8 [VUInt8 8])]))
   \<and> miMatrix 5 noZlib (Some LittleEndian)
     (exampleHead mxCELL @ exampleChild 97 7 @ [2, 0, 1, 0, 8, 0, 0, 0]) =
     Some (Inl (Panic ''interface conversion: matlab.Element is not *matlab.Matrix''))"
proof -
  let ?bo = "Some LittleEndian"
  let ?kids = "exampleChild 97 7 @ exampleChild 98 8"
  let ?bad = "exampleChild 97 7 @ [2, 0, 1, 0, 8, 0, 0, 0]"
  let ?r1 = "\<lambda>k. \<lparr>pending = drop 16 (exampleHead mxCELL) @ k, terminal = EOF, eager = False\<rparr>"
  let ?r2 = "\<lambda>k. \<lparr>pending = drop 32 (exampleHead mxCELL) @ k, terminal = EOF, eager = False\<rparr>"
  let ?r3 = "\<lambda>k::byte list. \<lparr>pending = k, terminal = EOF, eager = False\<rparr>"
  let ?r4 = "\<lparr>pending = [], terminal = EOF, eager = False\<rparr>"
  let ?a = "Matrix ''a'' [1, 1] noFlags mxUINT8 [VUInt8 7]"
  let ?b = "Matrix ''b'' [1, 1] noFlags mxUINT8 [VUInt8 8]"
  have fl: "arrayFlags ?bo (NewBuffer (exampleHead mxCELL @ ?kids)) = (Inr (noFlags, mxCELL), ?r1 ?kids)"
    "arrayFlags ?bo (NewBuffer (exampleHead mxCELL @ ?bad)) = (Inr (noFlags, mxCELL), ?r1 ?bad)"
    by code_simp+
  have dm: "dimensionsArray ?bo (?r1 ?kids) = (Inr [1, 2], ?r2 ?kids)"
    "dimensionsArray ?bo (?r1 ?bad) = (Inr [1, 2], ?r2 ?bad)"
    by code_simp+
  have nm: "arrayName ?bo (?r2 ?kids) = ((''Z'', None), ?r3 ?kids)"
    "arrayName ?bo (?r2 ?bad) = ((''Z'', None), ?r3 ?bad)"
    by code_simp+
  have ne: "notEOF None = None" by (simp add: notEOF_def)
  have ch: "readAllElements 4 noZlib ?bo (?r3 ?kids) = Some (Inr (map Mat [?a, ?b]), ?r4)"
    by code_simp
  have ch': "readAllElements 4 noZlib ?bo (?r3 ?bad) =
      Some (Inr [Mat ?a, Small (SmallData DTmiUINT8 [VUInt8 8])], ?r4)"
    by code_simp
  have five: "(5::nat) = Suc 4" by simp
  have A: "miMatrix 5 noZlib ?bo (exampleHead mxCELL @ ?kids) =
      Some (Inr (Matrix ''Z'' [1, 2] noFlags mxCELL (map VMatrix [?a, ?b])))"
    using miMatrix_cell[OF fl(1) dm(1) nm(1) ne ch] unfolding five by blast
  have "\<exists>e\<in>set [Mat ?a, Small (SmallData DTmiUINT8 [VUInt8 8])]. \<forall>m. e \<noteq> Mat m"
    by simp
  then have B: "miMatrix 5 noZlib ?bo (exampleHead mxCELL @ ?bad) =
      Some (Inl (Panic ''interface conversion: matlab.Element is not *matlab.Matrix''))"
    using miMatrix_cell[OF fl(2) dm(2) nm(2) ne ch'] unfolding five by blast
  show ?thesis using A B by simp
qed

text \<open>
  But the elements returned are not always the children the payload holds. An empty
  matrix among the children, encoded in full, has a real part of no bytes: the tag
  reader gives a normal tag of length 0, \<^verbatim>\<open>readNumericalData\<close> hands back the nil small
  element, and taking its value panics. And a child that is only a matrix tag of
  length 0 ends the loop over the children, as in a compressed element.
\<close>

lemma readNumericalData_no_bytes:
  "readNumericalData (Some LittleEndian) (NewBuffer [9, 0, 0, 0, 0, 0, 0, 0]) =
     (Inr None, NewBuffer [])
   \<and> numericValue (Some LittleEndian) noFlags (NewBuffer [9, 0, 0, 0, 0, 0, 0, 0]) =
     Inl (Panic ''runtime error: invalid memory address or nil pointer dereference'')"
  by code_simp

text \<open>
  C5. A cell with one row and three columns whose children are the matrix \<open>a\<close>, an
  empty matrix and the matrix \<open>b\<close>: decoding panics, where the value should be the three
  matrices in order. The same cell with a matrix tag of length 0 in the place of the
  empty matrix decodes to a value of one matrix, \<open>a\<close>; \<open>b\<close> is lost without a failure.
  With the matrix \<open>c\<close> in that place the value is the three matrices in order.
\<close>

theorem cell_children_not_all_decoded:
  "miMatrix 7 noZlib (Some LittleEndian)
     (exampleCellHead 3 @ exampleChild 97 7 @ exampleEmpty @ exampleChild 98 8) =
     Some (Inl (Panic ''runtime error: invalid memory address or nil pointer dereference''))
   \<and> miMatrix 7 noZlib (Some LittleEndian)
     (exampleCellHead 3 @ exampleChild 97 7 @ [14, 0, 0, 0, 0, 0, 0, 0] @ exampleChild 98 8) =
     Some (Inr (Matrix ''Z'' [1, 3] noFlags mxCELL
       [VMatrix (Matrix ''a'' [1, 1] noFlags mxUINT8 [VUInt8 7])]))
   \<and> miMatrix 7 noZlib (Some LittleEndian)
     (exampleCellHead 3 @ exampleChild 97 7 @ exampleChild 99 9 @ exampleChild 98 8) =
     Some (Inr (Matrix ''Z'' [1, 3] noFlags mxCELL
       [VMatrix (Matrix ''a'' [1, 1] noFlags mxUINT8 [VUInt8 7]),
        VMatrix (Matrix ''c'' [1, 1] noFlags mxUINT8 [VUInt8 9]),
        VMatrix (Matrix ''b'' [1, 1] noFlags mxUINT8 [VUInt8 8])]))"
  by code_simp

text \<open>
  C6. A matrix whose array flags give the class struct, object or sparse is never
  decoded: \<^verbatim>\<open>miMatrix\<close> ends in a failure, whatever follows, and when the dimensions
  and the name can be read the failure is the panic that names the class.
\<close>

theorem unsupported_class_fails:
  assumes fl: "arrayFlags bo (NewBuffer data) = (Inr (flags, class), r1)"
    and cl: "class = mxSTRUCT \<or> class = mxOBJECT \<or> class = mxSPARSE"
  shows "(\<exists>f. miMatrix (Suc n) zr bo data = Some (Inl f))
       \<and> (\<forall>dim r2 name err r3.
             dimensionsArray bo r1 = (Inr dim, r2) \<and> arrayName bo r2 = ((name, err), r3)
             \<and> notEOF err = None \<longrightarrow>
             miMatrix (Suc n) zr bo data =
               Some (Inl (Panic (if class = mxSPARSE then ''Sparse matrix unsupported''
                                 else if class = mxSTRUCT then ''Struct matrix unsupported''
                                 else ''Object matrix unsupported''))))"
proof (intro conjI allI impI)
  obtain d r2 where d: "dimensionsArray bo r1 = (d, r2)" by (cases "dimensionsArray bo r1")
  obtain name err r3 where a: "arrayName bo r2 = ((name, err), r3)"
    by (cases "arrayName bo r2") auto
  show "\<exists>f. miMatrix (Suc n) zr bo data = Some (Inl f)"
    using fl cl d a
    by (cases d; cases "notEOF err") (auto simp: mxClass_defs)
next
  fix dim r2 name err r3
  assume "dimensionsArray bo r1 = (Inr dim, r2) \<and> arrayName bo r2 = ((name, err), r3)
             \<and> notEOF err = None"
  then show "miMatrix (Suc n) zr bo data =
               Some (Inl (Panic (if class = mxSPARSE then ''Sparse matrix unsupported''
                                 else if class = mxSTRUCT then ''Struct matrix unsupported''
                                 else ''Object matrix unsupported'')))"
    using fl cl by (auto simp: mxClass_defs)
qed

text \<open>The matrix \<open>Z\<close> with the class struct.\<close>

theorem unsupported_class_fails_witness:
  "miMatrix 1 noZlib (Some LittleEndian) (exampleHead mxSTRUCT @ exampleChild 97 7) =
     Some (Inl (Panic ''Struct matrix unsupported''))"
proof -
  let ?bo = "Some LittleEndian"
  let ?data = "exampleHead mxSTRUCT @ exampleChild 97 7"
  let ?r1 = "\<lparr>pending = drop 16 ?data, terminal = EOF, eager = False\<rparr>"
  let ?r2 = "\<lparr>pending = drop 32 ?data, terminal = EOF, eager = False\<rparr>"
  let ?r3 = "\<lparr>pending = drop 40 ?data, terminal = EOF, eager = False\<rparr>"
  have fl: "arrayFlags ?bo (NewBuffer ?data) = (Inr (noFlags, mxSTRUCT), ?r1)"
    by code_simp
  have cl: "mxSTRUCT = mxSTRUCT \<or> mxSTRUCT = mxOBJECT \<or> mxSTRUCT = mxSPARSE" by simp
  have rest: "dimensionsArray ?bo ?r1 = (Inr [1, 2], ?r2) \<and> arrayName ?bo ?r2 = ((''Z'', None), ?r3)
      \<and> notEOF None = None"
    by code_simp
  have ns: "mxSTRUCT \<noteq> mxSPARSE" by (simp add: mxClass_defs)
  from unsupported_class_fails[OF fl cl, of 0 noZlib] rest
  have "miMatrix (Suc 0) noZlib ?bo ?data =
      Some (Inl (Panic (if mxSTRUCT = mxSPARSE then ''Sparse matrix unsupported''
                                 else if mxSTRUCT = mxSTRUCT then ''Struct matrix unsupported''
                                 else ''Object matrix unsupported'')))"
    by blast
  then show ?thesis using ns by simp
qed

subsection \<open>The registry of variables\<close>

lemma register_keeps:
  "register els f = (e, f') \<Longrightarrow>
   hasReadAll f' = hasReadAll f \<and> file_r f' = file_r f \<and> Header f' = Header f"
  by (induction els arbitrary: f) (auto split: if_splits Element.splits)

lemma readAll_sets_flag:
  "readAll n zr f = Some (e, f') \<Longrightarrow> hasReadAll f'"
  by (auto simp: readAll_def Let_def split: if_splits option.splits sum.splits prod.splits
      dest: register_keeps)

text \<open>
  C8. On a file that has been read, a lookup returns the entry of the mapping and
  leaves the file as it is, byte source included, whatever the recursion allowance (none
  is needed); \<^verbatim>\<open>readAll\<close> does nothing on such a file. And every lookup that returns
  leaves the file in the read state, so the pass over the stream runs at most once.
\<close>

theorem lookup_after_read:
  "(hasReadAll f \<longrightarrow>
      GetVar n zr name f = Some (Inr (vars f name), f) \<and> readAll n zr f = Some (None, f))
   \<and> (\<forall>res f'. GetVar n zr name f = Some (res, f') \<longrightarrow> hasReadAll f')"
proof (intro conjI impI allI)
  assume "hasReadAll f"
  then show "GetVar n zr name f = Some (Inr (vars f name), f)"
    and "readAll n zr f = Some (None, f)"
    by (simp_all add: GetVar_def readAll_def)
next
  fix res f'
  assume g: "GetVar n zr name f = Some (res, f')"
  show "hasReadAll f'"
  proof (cases "hasReadAll f")
    case True
    then show ?thesis using g by (simp add: GetVar_def)
  next
    case False
    then obtain e where "readAll n zr f = Some (e, f')"
      using g by (auto simp: GetVar_def split: option.splits prod.splits fault.splits)
    then show ?thesis by (rule readAll_sets_flag)
  qed
qed

text \<open>
  A file with the one variable \<open>a\<close>: the first lookup decodes it, the second,
  with no recursion allowed, returns the same matrix and the same file.
\<close>

theorem lookup_after_read_witness:
  "map_option fst (GetVar 4 noZlib ''a'' (exampleFile (exampleChild 97 7))) =
     Some (Inr (Some (Matrix ''a'' [1, 1] noFlags mxUINT8 [VUInt8 7])))
   \<and> map_option fst
        (GetVar 0 noZlib ''a'' (snd (the (GetVar 4 noZlib ''a'' (exampleFile (exampleChild 97 7)))))) =
     Some (Inr (Some (Matrix ''a'' [1, 1] noFlags mxUINT8 [VUInt8 7])))
   \<and> map_option snd
        (GetVar 0 noZlib ''a'' (snd (the (GetVar 4 noZlib ''a'' (exampleFile (exampleChild 97 7)))))) =
     Some (snd (the (GetVar 4 noZlib ''a'' (exampleFile (exampleChild 97 7)))))"
proof -
  let ?f0 = "exampleFile (exampleChild 97 7)"
  let ?m = "Matrix ''a'' [1, 1] noFlags mxUINT8 [VUInt8 7]"
  have first: "map_option fst (GetVar 4 noZlib ''a'' ?f0) = Some (Inr (Some ?m))"
    by code_simp
  then obtain f1 where g: "GetVar 4 noZlib ''a'' ?f0 = Some (Inr (Some ?m), f1)"
    by (cases "GetVar 4 noZlib ''a'' ?f0") auto
  have v: "vars f1 ''a'' = Some ?m"
  proof -
    have "vars (snd (the (GetVar 4 noZlib ''a'' ?f0))) ''a'' = Some ?m" by code_simp
    then show ?thesis by (simp add: g)
  qed
  from lookup_after_read[of ?f0 4 noZlib "''a''"] g have r: "hasReadAll f1" by blast
  from lookup_after_read[of f1 0 noZlib "''a''"] r
  have "GetVar 0 noZlib ''a'' f1 = Some (Inr (vars f1 ''a''), f1)" by blast
  then show ?thesis using first g v by simp
qed

lemma registerAll_keeps:
  "hasReadAll (registerAll ms f) = hasReadAll f \<and> file_r (registerAll ms f) = file_r f
   \<and> Header (registerAll ms f) = Header f"
  by (induction ms arbitrary: f) simp_all

lemma register_Mats:
  "register (map Mat ms @ es) f = register es (registerAll ms f)"
  by (induction ms arbitrary: f) simp_all

lemma register_not_Mat:
  "\<forall>m. e \<noteq> Mat m \<Longrightarrow> \<exists>msg. register (e # es) f = (Some (Panic msg), f)"
  by (cases e) auto

text \<open>
  C7, as the code has it. A pass that fails, with an error or with a panic, leaves the
  file in the read state: the flag is set before the pass starts and is not taken back,
  and the byte source has been consumed up to the failure, so later lookups do not read
  again and answer from the mapping as the pass left it. When the failure is one of the
  element reader, the mapping is as it was before the pass; an error makes the lookup
  report the variable as absent, a panic is not caught. When the failure is the panic
  of the loop over the elements at one that is not a matrix, the matrices before it
  have been stored and stay in the mapping.
\<close>

theorem failed_pass_state:
  assumes unread: "\<not> hasReadAll f"
  shows "(\<forall>flt r'. readAllElements n zr (Endianess (Header f)) (file_r f) = Some (Inl flt, r') \<longrightarrow>
            readAll n zr f = Some (Some flt, f\<lparr>hasReadAll := True, file_r := r'\<rparr>)
          \<and> GetVar n zr name f =
              Some ((case flt of Err msg \<Rightarrow> Inr None | Panic msg \<Rightarrow> Inl (Panic msg)),
                    f\<lparr>hasReadAll := True, file_r := r'\<rparr>)
          \<and> GetVar k zr name' (f\<lparr>hasReadAll := True, file_r := r'\<rparr>) =
              Some (Inr (vars f name'), f\<lparr>hasReadAll := True, file_r := r'\<rparr>))
       \<and> (\<forall>ms e es r'.
            readAllElements n zr (Endianess (Header f)) (file_r f) =
              Some (Inr (map Mat ms @ e # es), r') \<and> (\<forall>m. e \<noteq> Mat m) \<longrightarrow>
            (\<exists>msg. readAll n zr f =
                     Some (Some (Panic msg),
                           registerAll ms (f\<lparr>hasReadAll := True, file_r := r'\<rparr>))
                 \<and> GetVar n zr name f =
                     Some (Inl (Panic msg),
                           registerAll ms (f\<lparr>hasReadAll := True, file_r := r'\<rparr>)))
            \<and> hasReadAll (registerAll ms (f\<lparr>hasReadAll := True, file_r := r'\<rparr>))
            \<and> GetVar k zr name' (registerAll ms (f\<lparr>hasReadAll := True, file_r := r'\<rparr>)) =
                Some (Inr (vars (registerAll ms (f\<lparr>hasReadAll := True, file_r := r'\<rparr>)) name'),
                      registerAll ms (f\<lparr>hasReadAll := True, file_r := r'\<rparr>)))"
proof (intro conjI allI impI)
  fix flt r'
  assume a: "readAllElements n zr (Endianess (Header f)) (file_r f) = Some (Inl flt, r')"
  show "readAll n zr f = Some (Some flt, f\<lparr>hasReadAll := True, file_r := r'\<rparr>)"
    using unread a by (simp add: readAll_def Let_def)
  then show "GetVar n zr name f =
              Some ((case flt of Err msg \<Rightarrow> Inr None | Panic msg \<Rightarrow> Inl (Panic msg)),
                    f\<lparr>hasReadAll := True, file_r := r'\<rparr>)"
    using unread by (cases flt) (simp_all add: GetVar_def)
  show "GetVar k zr name' (f\<lparr>hasReadAll := True, file_r := r'\<rparr>) =
              Some (Inr (vars f name'), f\<lparr>hasReadAll := True, file_r := r'\<rparr>)"
    by (simp add: GetVar_def)
next
  fix ms e es r'
  assume a: "readAllElements n zr (Endianess (Header f)) (file_r f) =
              Some (Inr (map Mat ms @ e # es), r') \<and> (\<forall>m. e \<noteq> Mat m)"
  let ?g = "registerAll ms (f\<lparr>hasReadAll := True, file_r := r'\<rparr>)"
  obtain msg where m: "register (e # es) ?g = (Some (Panic msg), ?g)"
    using register_not_Mat[of e es ?g] a by blast
  have r: "readAll n zr f = Some (Some (Panic msg), ?g)"
    using unread a m by (simp add: readAll_def Let_def register_Mats del: register.simps)
  then have g: "GetVar n zr name f = Some (Inl (Panic msg), ?g)"
    using unread by (simp add: GetVar_def)
  show "\<exists>msg. readAll n zr f = Some (Some (Panic msg), ?g)
             \<and> GetVar n zr name f = Some (Inl (Panic msg), ?g)"
    using r g by blast
  show h: "hasReadAll ?g" by (simp add: registerAll_keeps)
  show "GetVar k zr name' ?g = Some (Inr (vars ?g name'), ?g)"
    using h by (simp add: GetVar_def)
qed

text \<open>
  Three streams: the matrix \<open>a\<close> followed by three stray bytes (an error of the element
  reader), a tag that has no width (a panic of the element reader), and the matrix
  \<open>a\<close> followed by a small element (the panic of the loop).
\<close>

theorem failed_pass_state_witness:
  "map_option fst (GetVar 3 noZlib ''a'' (exampleFile (exampleChild 97 7 @ [0, 0, 0]))) =
     Some (Inr None)
   \<and> map_option (\<lambda>x. vars (snd x) ''a'')
       (GetVar 3 noZlib ''a'' (exampleFile (exampleChild 97 7 @ [0, 0, 0]))) = Some None
   \<and> map_option (hasReadAll \<circ> snd)
        (GetVar 3 noZlib ''a'' (exampleFile (exampleChild 97 7 @ [0, 0, 0]))) = Some True
   \<and> map_option fst (GetVar 3 noZlib ''a'' (exampleFile [14, 0, 1, 0, 0, 0, 0, 0])) =
     Some (Inl (Panic ''Cannot get NumBytes of variable length type: miMATRIX''))
   \<and> map_option (hasReadAll \<circ> snd)
        (GetVar 3 noZlib ''a'' (exampleFile [14, 0, 1, 0, 0, 0, 0, 0])) = Some True
   \<and> map_option fst
       (GetVar 4 noZlib ''a'' (exampleFile (exampleChild 97 7 @ [2, 0, 1, 0, 8, 0, 0, 0]))) =
     Some (Inl (Panic ''This library assumes top level elements are either Matrix or Compressed. Please file an issue''))
   \<and> map_option (\<lambda>x. vars (snd x) ''a'')
       (GetVar 4 noZlib ''a'' (exampleFile (exampleChild 97 7 @ [2, 0, 1, 0, 8, 0, 0, 0]))) =
     Some (Some (Matrix ''a'' [1, 1] noFlags mxUINT8 [VUInt8 7]))
   \<and> map_option (hasReadAll \<circ> snd)
       (GetVar 4 noZlib ''a'' (exampleFile (exampleChild 97 7 @ [2, 0, 1, 0, 8, 0, 0, 0]))) =
     Some True"
proof -
  let ?bo = "Some LittleEndian"
  let ?a = "Matrix ''a'' [1, 1] noFlags mxUINT8 [VUInt8 7]"
  let ?f1 = "exampleFile (exampleChild 97 7 @ [0, 0, 0])"
  let ?f2 = "exampleFile [14, 0, 1, 0, 0, 0, 0, 0]"
  let ?f3 = "exampleFile (exampleChild 97 7 @ [2, 0, 1, 0, 8, 0, 0, 0])"
  have u: "\<not> hasReadAll ?f1" "\<not> hasReadAll ?f2" "\<not> hasReadAll ?f3"
    by (simp_all add: exampleFile_def)
  have "readAllElements 3 noZlib ?bo (NewBuffer (exampleChild 97 7 @ [0, 0, 0])) =
      Some (Inl (Err ''EOF reached but we're supposed to read 5 more bytes''), NewBuffer [])"
    by code_simp
  then have e1: "readAllElements 3 noZlib (Endianess (Header ?f1)) (file_r ?f1) =
      Some (Inl (Err ''EOF reached but we're supposed to read 5 more bytes''), NewBuffer [])"
    by (simp add: exampleFile_def)
  have "readAllElements 3 noZlib ?bo (NewBuffer [14, 0, 1, 0, 0, 0, 0, 0]) =
      Some (Inl (Panic ''Cannot get NumBytes of variable length type: miMATRIX''), NewBuffer [])"
    by code_simp
  then have e2: "readAllElements 3 noZlib (Endianess (Header ?f2)) (file_r ?f2) =
      Some (Inl (Panic ''Cannot get NumBytes of variable length type: miMATRIX''), NewBuffer [])"
    by (simp add: exampleFile_def)
  have "readAllElements 4 noZlib ?bo (NewBuffer (exampleChild 97 7 @ [2, 0, 1, 0, 8, 0, 0, 0])) =
      Some (Inr (map Mat [?a] @ Small (SmallData DTmiUINT8 [VUInt8 8]) # []), NewBuffer [])"
    by code_simp
  then have e3: "readAllElements 4 noZlib (Endianess (Header ?f3)) (file_r ?f3) =
      Some (Inr (map Mat [?a] @ Small (SmallData DTmiUINT8 [VUInt8 8]) # []), NewBuffer [])
      \<and> (\<forall>m. Small (SmallData DTmiUINT8 [VUInt8 8]) \<noteq> Mat m)"
    by (simp add: exampleFile_def)
  have A: "GetVar 3 noZlib ''a'' ?f1 =
      Some (Inr None, ?f1\<lparr>hasReadAll := True, file_r := NewBuffer []\<rparr>)"
    using failed_pass_state[OF u(1), of 3 noZlib "''a''"] e1 by fastforce
  have B: "GetVar 3 noZlib ''a'' ?f2 =
      Some (Inl (Panic ''Cannot get NumBytes of variable length type: miMATRIX''),
            ?f2\<lparr>hasReadAll := True, file_r := NewBuffer []\<rparr>)"
    using failed_pass_state[OF u(2), of 3 noZlib "''a''"] e2 by fastforce
  from failed_pass_state[OF u(3), of 4 noZlib "''a''"] e3
  obtain msg where C: "GetVar 4 noZlib ''a'' ?f3 =
      Some (Inl (Panic msg), registerAll [?a] (?f3\<lparr>hasReadAll := True, file_r := NewBuffer []\<rparr>))"
    by blast
  have C': "map_option fst (GetVar 4 noZlib ''a'' ?f3) =
     Some (Inl (Panic ''This library assumes top level elements are either Matrix or Compressed. Please file an issue''))"
    by code_simp
  show ?thesis
    using C' unfolding A B C by (simp add: exampleFile_def)
qed

text \<open>
  C7 as stated does not hold. After the failed pass over the matrix \<open>a\<close> and three stray
  bytes the lookup has found nothing, and the file reports itself as read. After the
  failed pass over the matrix \<open>a\<close> and a small element the file reports itself as read,
  \<open>a\<close> is in the mapping, and the next lookup, with no recursion allowed, returns it.
\<close>

theorem failed_pass_state_counterexample:
  "map_option fst (readAll 3 noZlib (exampleFile (exampleChild 97 7 @ [0, 0, 0]))) =
     Some (Some (Err ''EOF reached but we're supposed to read 5 more bytes''))
   \<and> map_option fst (GetVar 3 noZlib ''a'' (exampleFile (exampleChild 97 7 @ [0, 0, 0]))) =
     Some (Inr None)
   \<and> map_option (hasReadAll \<circ> snd)
        (GetVar 3 noZlib ''a'' (exampleFile (exampleChild 97 7 @ [0, 0, 0]))) = Some True
   \<and> map_option fst
        (readAll 4 noZlib (exampleFile (exampleChild 97 7 @ [2, 0, 1, 0, 8, 0, 0, 0]))) =
     Some (Some (Panic ''This library assumes top level elements are either Matrix or Compressed. Please file an issue''))
   \<and> map_option (hasReadAll \<circ> snd)
        (readAll 4 noZlib (exampleFile (exampleChild 97 7 @ [2, 0, 1, 0, 8, 0, 0, 0]))) =
     Some True
   \<and> map_option (\<lambda>x. vars (snd x) ''a'')
        (readAll 4 noZlib (exampleFile (exampleChild 97 7 @ [2, 0, 1, 0, 8, 0, 0, 0]))) =
     Some (Some (Matrix ''a'' [1, 1] noFlags mxUINT8 [VUInt8 7]))
   \<and> map_option fst
        (GetVar 0 noZlib ''a''
           (snd (the (readAll 4 noZlib
                        (exampleFile (exampleChild 97 7 @ [2, 0, 1, 0, 8, 0, 0, 0])))))) =
     Some (Inr (Some (Matrix ''a'' [1, 1] noFlags mxUINT8 [VUInt8 7])))"
  by code_simp

subsection \<open>The byte order marker\<close>

lemma headerText_Endianess:
  "headerText trimSpace buf h = (e, h') \<Longrightarrow> Endianess h' = Endianess h"
  by (auto simp: headerText_def Let_def split: prod.splits option.splits if_splits)

text \<open>
  C9. For a source that holds the 116 bytes of an accepted header text, the 8 bytes of
  the subsystem offset and the 4 flag bytes: bytes 2-3 of the flag field are the marker;
  \<open>MI\<close> sets the byte order to big-endian, \<open>IM\<close> to little-endian, and any other pair
  makes \<^verbatim>\<open>readHeader\<close> fail with the error that quotes the marker, the byte order of
  the header staying unset. (An eager source that ends with the flag bytes must end with
  \<^verbatim>\<open>EOF\<close>, or the read of the flag bytes fails.)
\<close>

theorem byte_order_marker:
  assumes desc: "length description = headerTextLen"
    and ok: "headerText trimSpace description \<lparr>Level = [], Platform = [], Endianess = None\<rparr> = (None, h)"
    and sub: "length sub = headerSubsystemOffsetLen"
    and flag: "length flag = headerFlagLen"
    and src: "file_r f = \<lparr>pending = description @ sub @ flag @ rest, terminal = t, eager = e\<rparr>"
    and last: "e \<longrightarrow> rest \<noteq> [] \<or> t = EOF"
  shows "(string_of_bytes (take 2 (drop 2 flag)) = ''MI'' \<longrightarrow>
            readHeader trimSpace f =
              (None, f\<lparr>Header := h\<lparr>Endianess := Some BigEndian\<rparr>,
                        file_r := \<lparr>pending = rest, terminal = t, eager = e\<rparr>\<rparr>))
       \<and> (string_of_bytes (take 2 (drop 2 flag)) = ''IM'' \<longrightarrow>
            readHeader trimSpace f =
              (None, f\<lparr>Header := h\<lparr>Endianess := Some LittleEndian\<rparr>,
                        file_r := \<lparr>pending = rest, terminal = t, eager = e\<rparr>\<rparr>))
       \<and> (string_of_bytes (take 2 (drop 2 flag)) \<noteq> ''MI''
            \<and> string_of_bytes (take 2 (drop 2 flag)) \<noteq> ''IM'' \<longrightarrow>
            readHeader trimSpace f =
              (Some (Err (''invalid byte order setting: ''
                          @ string_of_bytes (take 2 (drop 2 flag)))),
               f\<lparr>Header := h, file_r := \<lparr>pending = rest, terminal = t, eager = e\<rparr>\<rparr>)
            \<and> Endianess h = None)"
proof -
  have e: "Endianess h = None" using headerText_Endianess[OF ok] by simp
  have fne: "flag \<noteq> []" using flag by (auto simp: headerFlagLen_def)
  have r1: "readAllBytes headerTextLen (file_r f) =
      ((description, None), \<lparr>pending = sub @ flag @ rest, terminal = t, eager = e\<rparr>)"
    unfolding src using desc fne by (simp add: readAllBytes_prefix)
  have r2: "readAllBytes headerSubsystemOffsetLen \<lparr>pending = sub @ flag @ rest, terminal = t, eager = e\<rparr> =
      ((sub, None), \<lparr>pending = flag @ rest, terminal = t, eager = e\<rparr>)"
    using sub fne by (simp add: readAllBytes_prefix)
  have r3: "readAllBytes headerFlagLen \<lparr>pending = flag @ rest, terminal = t, eager = e\<rparr> =
      ((flag, None), \<lparr>pending = rest, terminal = t, eager = e\<rparr>)"
    using flag last by (simp add: readAllBytes_prefix)
  show ?thesis
    using e by (simp add: readHeader_def Let_def r1 r2 r3 ok)
qed

text \<open>The example header with the markers \<open>IM\<close>, \<open>MI\<close> and \<open>II\<close>.\<close>

theorem byte_order_marker_witness:
  "fst (NewFileFromReader asciiTrimSpace
          (NewBuffer (exampleHeaderText @ replicate 8 0 @ [0, 1, 0x49, 0x4D] @ [9]))) = None
   \<and> Header (snd (NewFileFromReader asciiTrimSpace
          (NewBuffer (exampleHeaderText @ replicate 8 0 @ [0, 1, 0x49, 0x4D] @ [9])))) =
       \<lparr>Level = ''5.0'', Platform = ''posix'', Endianess = Some LittleEndian\<rparr>
   \<and> Header (snd (NewFileFromReader asciiTrimSpace
          (NewBuffer (exampleHeaderText @ replicate 8 0 @ [1, 0, 0x4D, 0x49] @ [9])))) =
       \<lparr>Level = ''5.0'', Platform = ''posix'', Endianess = Some BigEndian\<rparr>
   \<and> fst (NewFileFromReader asciiTrimSpace
          (NewBuffer (exampleHeaderText @ replicate 8 0 @ [0, 1, 0x49, 0x49] @ [9]))) =
       Some (Err ''invalid byte order setting: II'')
   \<and> Endianess (Header (snd (NewFileFromReader asciiTrimSpace
          (NewBuffer (exampleHeaderText @ replicate 8 0 @ [0, 1, 0x49, 0x49] @ [9]))))) = None"
proof -
  let ?ini = "\<lparr>Level = [], Platform = [], Endianess = None\<rparr>"
  let ?h = "\<lparr>Level = ''5.0'', Platform = ''posix'', Endianess = None\<rparr>"
  let ?f = "\<lambda>flag. \<lparr>Header = ?ini,
      file_r = NewBuffer (exampleHeaderText @ replicate 8 0 @ flag @ [9]),
      hasReadAll = False, vars = Map.empty\<rparr>"
  have d: "length exampleHeaderText = headerTextLen" by code_simp
  have ok: "headerText asciiTrimSpace exampleHeaderText ?ini = (None, ?h)" by code_simp
  have s: "length (replicate 8 (0::byte)) = headerSubsystemOffsetLen"
    by (simp add: headerSubsystemOffsetLen_def)
  have fl: "length [0, 1, 0x49, 0x4D :: byte] = headerFlagLen"
    "length [1, 0, 0x4D, 0x49 :: byte] = headerFlagLen"
    "length [0, 1, 0x49, 0x49 :: byte] = headerFlagLen"
    by (simp_all add: headerFlagLen_def)
  have src: "file_r (?f flag) =
      \<lparr>pending = exampleHeaderText @ replicate 8 0 @ flag @ [9], terminal = EOF, eager = False\<rparr>" for flag
    by (simp add: NewBuffer_def)
  have lst: "False \<longrightarrow> [9 :: byte] \<noteq> [] \<or> EOF = EOF" by simp
  have m: "string_of_bytes (take 2 (drop 2 [0, 1, 0x49, 0x4D])) = ''IM''"
    "string_of_bytes (take 2 (drop 2 [1, 0, 0x4D, 0x49])) = ''MI''"
    "string_of_bytes (take 2 (drop 2 [0, 1, 0x49, 0x49])) = ''II''"
    by code_simp+
  have A: "readHeader asciiTrimSpace (?f [0, 1, 0x49, 0x4D]) =
      (None, (?f [0, 1, 0x49, 0x4D])\<lparr>Header := ?h\<lparr>Endianess := Some LittleEndian\<rparr>,
                file_r := \<lparr>pending = [9], terminal = EOF, eager = False\<rparr>\<rparr>)"
    using byte_order_marker[OF d ok s fl(1) src lst] m(1) by blast
  have B: "readHeader asciiTrimSpace (?f [1, 0, 0x4D, 0x49]) =
      (None, (?f [1, 0, 0x4D, 0x49])\<lparr>Header := ?h\<lparr>Endianess := Some BigEndian\<rparr>,
                file_r := \<lparr>pending = [9], terminal = EOF, eager = False\<rparr>\<rparr>)"
    using byte_order_marker[OF d ok s fl(2) src lst] m(2) by blast
  have ne: "''II'' \<noteq> ''MI''" "''II'' \<noteq> ''IM''" by simp_all
  have C: "readHeader asciiTrimSpace (?f [0, 1, 0x49, 0x49]) =
      (Some (Err (''invalid byte order setting: '' @ ''II'')),
       (?f [0, 1, 0x49, 0x49])\<lparr>Header := ?h, file_r := \<lparr>pending = [9], terminal = EOF, eager = False\<rparr>\<rparr>)"
    using byte_order_marker[OF d ok s fl(3) src lst] ne unfolding m(3) by blast
  show ?thesis
    unfolding NewFileFromReader_def A B C by simp
qed

end
